theory Spec2Isabelle
  imports Complex_Main "HOL-Library.Word"
begin

section \<open>The Go runtime and standard library, as far as jvbCollector.go uses them\<close>

text \<open>
  A Go \<^verbatim>\<open>string\<close> is a sequence of bytes, here a \<^typ>\<open>string\<close>; a \<^verbatim>\<open>uint64\<close> is a
  \<^typ>\<open>64 word\<close>, whose addition wraps around as Go's does. A run-time panic is a value
  of type \<open>panic\<close>, and a function that may panic returns \<open>panic + 'a\<close>.
\<close>

type_synonym uint64 = "64 word"

datatype panic = SliceBoundsOutOfRange | IndexOutOfRange | NilPointerDereference

subsection \<open>strings.Trim and strings.Split\<close>

text \<open>
  \<^verbatim>\<open>strings.Trim(s, cutset)\<close> removes every leading and every trailing character that
  occurs in \<open>cutset\<close>. The cutset of the program is ASCII, so bytes and code points agree.
\<close>

definition strings_TrimLeft :: "string \<Rightarrow> string \<Rightarrow> string" where
  "strings_TrimLeft s cutset = dropWhile (\<lambda>c. c \<in> set cutset) s"

definition strings_TrimRight :: "string \<Rightarrow> string \<Rightarrow> string" where
  "strings_TrimRight s cutset = rev (dropWhile (\<lambda>c. c \<in> set cutset) (rev s))"

definition strings_Trim :: "string \<Rightarrow> string \<Rightarrow> string" where
  "strings_Trim s cutset = strings_TrimLeft (strings_TrimRight s cutset) cutset"

text \<open>
  \<^verbatim>\<open>strings.Split(s, sep)\<close> for a separator of one byte, which is how the program calls
  it: the fields between the separators, in order. \<open>split_from sep field s\<close> has read
  \<open>field\<close> since the last separator and still has \<open>s\<close> to read.
\<close>

fun split_from :: "char \<Rightarrow> string \<Rightarrow> string \<Rightarrow> string list" where
  "split_from sep field [] = [field]"
| "split_from sep field (c # cs) =
     (if c = sep then field # split_from sep [] cs else split_from sep (field @ [c]) cs)"

definition strings_Split :: "string \<Rightarrow> char \<Rightarrow> string list" where
  "strings_Split s sep = split_from sep [] s"

subsection \<open>strconv.ParseUint(s, 10, 64)\<close>

text \<open>
  The standard library's loop for base 10 and 64 bits. The empty string and a byte that
  is not a decimal digit are a syntax error with value 0. A digit that would take the
  value past \<open>2^64 - 1\<close> ends the loop at once with a range error and the value
  \<open>2^64 - 1\<close>, whatever follows it. No sign, blank or underscore is accepted.
\<close>

datatype NumError = ErrSyntax | ErrRange

definition is_digit :: "char \<Rightarrow> bool" where
  "is_digit c = (48 \<le> (of_char c :: nat) \<and> (of_char c :: nat) \<le> 57)"

definition digit_val :: "char \<Rightarrow> uint64" where
  "digit_val c = of_nat (of_char c - 48)"

definition maxUint64 :: uint64 where
  "maxUint64 = 18446744073709551615"

definition cutoff :: uint64 where
  "cutoff = 1844674407370955162"

fun ParseUint_loop :: "uint64 \<Rightarrow> string \<Rightarrow> uint64 \<times> NumError option" where
  "ParseUint_loop n [] = (n, None)"
| "ParseUint_loop n (c # cs) =
     (if \<not> is_digit c then (0, Some ErrSyntax)
      else if cutoff \<le> n then (maxUint64, Some ErrRange)
      else if n * 10 + digit_val c < n * 10 \<or> maxUint64 < n * 10 + digit_val c
        then (maxUint64, Some ErrRange)
      else ParseUint_loop (n * 10 + digit_val c) cs)"

definition strconv_ParseUint :: "string \<Rightarrow> uint64 \<times> NumError option" where
  "strconv_ParseUint s = (if s = [] then (0, Some ErrSyntax) else ParseUint_loop 0 s)"

section \<open>bucketsHelper\<close>

text \<open>
  The inner loop \<^verbatim>\<open>for j = i; j >= 0; j-- { cumulative += values[j] }\<close>. The counter of
  the model is \<open>j + 1\<close>, so that \<open>0\<close> is the exit \<open>j = -1\<close>. An index outside the slice
  panics.
\<close>

fun cumulative_loop :: "uint64 list \<Rightarrow> nat \<Rightarrow> uint64 \<Rightarrow> panic + uint64" where
  "cumulative_loop values 0 cumulative = Inr cumulative"
| "cumulative_loop values (Suc j) cumulative =
     (if j < length values then cumulative_loop values j (cumulative + values ! j)
      else Inl IndexOutOfRange)"

text \<open>
  The outer loop \<^verbatim>\<open>for i = len(values) - 1; i >= 0; i--\<close>, which overwrites
  \<^verbatim>\<open>values[i]\<close> in place; the counter is again \<open>i + 1\<close>.
\<close>

fun buckets_loop :: "uint64 list \<Rightarrow> nat \<Rightarrow> panic + uint64 list" where
  "buckets_loop values 0 = Inr values"
| "buckets_loop values (Suc i) =
     (case cumulative_loop values (Suc i) 0 of
        Inl p \<Rightarrow> Inl p
      | Inr cumulative \<Rightarrow>
          if i < length values then buckets_loop (values[i := cumulative]) i
          else Inl IndexOutOfRange)"

text \<open>
  \<^verbatim>\<open>for i, v := range values { histogram[float64(i)] = v }\<close>. The key is the index as a
  real number: the conversion of an index to \<^verbatim>\<open>float64\<close> is exact below \<open>2^53\<close>, and a
  slice of parsed fields is far shorter.
\<close>

fun fill_histogram :: "(real \<rightharpoonup> uint64) \<Rightarrow> nat \<Rightarrow> uint64 list \<Rightarrow> (real \<rightharpoonup> uint64)" where
  "fill_histogram histogram i [] = histogram"
| "fill_histogram histogram i (v # vs) = fill_histogram (histogram(real i \<mapsto> v)) (Suc i) vs"

text \<open>The fields of the value, as the first loop parses them; the error is dropped.\<close>

definition parsed_counts :: "string \<Rightarrow> uint64 list" where
  "parsed_counts value =
     map (\<lambda>v. fst (strconv_ParseUint v)) (strings_Split (strings_Trim value ''[]'') CHR '','')"

text \<open>
  \<^verbatim>\<open>values[:len(values)-1]\<close> panics on an empty slice; the sum is taken before, over
  all the counts, in \<^verbatim>\<open>uint64\<close>.
\<close>

definition bucketsHelper :: "string \<Rightarrow> panic + ((real \<rightharpoonup> uint64) \<times> uint64)" where
  "bucketsHelper value =
     (let values = parsed_counts value;
          sum = foldl (\<lambda>s v. s + v) 0 values
      in if length values = 0 then Inl SliceBoundsOutOfRange
         else case buckets_loop (take (length values - 1) values) (length values - 1) of
                Inl p \<Rightarrow> Inl p
              | Inr values' \<Rightarrow> Inr (fill_histogram Map.empty 0 values', sum))"

section \<open>The data of the collector\<close>

text \<open>
  Modelled from the spec: the type \<^verbatim>\<open>Stats\<close> is declared in another file of the package.
  The collector reads it as \<^verbatim>\<open>set.stats.Stats\<close>, a sequence of elements with the string
  fields \<^verbatim>\<open>Name\<close> and \<^verbatim>\<open>Value\<close> (the spec's RawStat: a name and an unparsed value).
\<close>

record Stat =
  Name :: string
  Value :: string

record Stats =
  Stats :: "Stat list"

text \<open>
  A \<^verbatim>\<open>time.Time\<close> is an instant in nanoseconds and a \<^verbatim>\<open>time.Duration\<close> a number of
  nanoseconds; \<^verbatim>\<open>time.Since(t)\<close> is the clock's reading minus \<open>t\<close> (the 292 years at
  which a \<^verbatim>\<open>Duration\<close> saturates are out of reach of a stamp that \<^verbatim>\<open>Update\<close> took from
  the same clock). The reading of the clock is an argument of every operation that asks
  for it.
\<close>

type_synonym time = int
type_synonym duration = int

record statsSet =
  lastUpdated :: time
  stats :: Stats
  jvbIdentifier :: string

datatype ValueType = CounterValue | GaugeValue | UntypedValue

text \<open>
  What \<^verbatim>\<open>prometheus.NewDesc(fqName, help, variableLabels, constLabels)\<close> keeps. The
  constant labels are a map literal with one entry, kept as the list of its entries.
\<close>

record Desc =
  fqName :: string
  helpText :: string
  variableLabels :: "string list"
  constLabels :: "(string \<times> string) list"

definition prometheus_NewDesc ::
  "string \<Rightarrow> string \<Rightarrow> string list \<Rightarrow> (string \<times> string) list \<Rightarrow> Desc" where
  "prometheus_NewDesc fqName0 help0 variableLabels0 constLabels0 =
     \<lparr>fqName = fqName0, helpText = help0, variableLabels = variableLabels0,
      constLabels = constLabels0\<rparr>"

record metric =
  name :: string
  desc :: Desc
  metricType :: ValueType

definition newMetric ::
  "string \<Rightarrow> ValueType \<Rightarrow> string \<Rightarrow> string list \<Rightarrow> (string \<times> string) list \<Rightarrow> metric" where
  "newMetric name0 metricType0 help0 varLabels constLabels0 =
     \<lparr>name = name0, desc = prometheus_NewDesc name0 help0 varLabels constLabels0,
      metricType = metricType0\<rparr>"

record JvbCollector =
  NamePrefix :: string
  Retention :: duration
  statsSets :: "statsSet list"
  metrics :: "metric list"

section \<open>NewJvbCollector\<close>

text \<open>
  The metrics that \<^verbatim>\<open>NewJvbCollector\<close> appends, in the order of the source: the name
  after the prefix, the type and the help text. Every one of them is made with the variable
  labels \<^verbatim>\<open>[]string{"jvb_instance"}\<close> and the constant labels \<^verbatim>\<open>{"app": "jitsi"}\<close>.
\<close>

definition catalog :: "(string \<times> ValueType \<times> string) list" where
  "catalog = [
    (''packet_rate_download'', GaugeValue,
      ''download packet rate''),
    (''conference_sizes'', UntypedValue,
      ''histogram of conference sizes (ie. how many conferences have 5 participants and so on)''),
    (''total_packets_sent_octo'', CounterValue,
      ''total number of octo packets sent''),
    (''total_loss_degraded_participant_seconds'', CounterValue,
      ''The total number of participant-seconds that are loss-degraded.''),
    (''bit_rate_download'', GaugeValue,
      ''download rate kbit/s''),
    (''jitter_aggregate'', GaugeValue,
      ''Experimental. An average value (in milliseconds) of the jitter calculated for incoming and outgoing streams. This hasn't been tested and it is currently not known whether the values are correct or not.''),
    (''total_packets_received'', CounterValue,
      ''Total number of packets received''),
    (''rtt_aggregate'', GaugeValue,
      ''An average value (in milliseconds) of the RTT across all streams.''),
    (''packet_rate_upload'', GaugeValue,
      ''Upload packets/s''),
    (''conferences'', GaugeValue,
      ''The current number of conferences hosted by the bridge''),
    (''participants'', GaugeValue,
      ''The current number of participants.''),
    (''total_loss_limited_participant_seconds'', CounterValue,
      ''The total number of participant-seconds that are loss-limited.''),
    (''largest_conference'', GaugeValue,
      ''The current number of participants in the largest conference''),
    (''total_packets_sent'', CounterValue,
      ''The total number of packets sent.''),
    (''total_data_channel_messages_sent'', CounterValue,
      ''The total number of data channel messages sent.''),
    (''total_bytes_received_octo'', CounterValue,
      ''The total number octo bytes sent.''),
    (''threads'', GaugeValue,
      ''The current number of threads.''),
    (''total_colibri_web_socket_messages_received'', CounterValue,
      ''The total number messages received through COLIBRI web sockets.''),
    (''videochannels'', GaugeValue,
      ''The current number of videochannels.''),
    (''total_packets_received_octo'', CounterValue,
      ''Total octo packets received.''),
    (''total_colibri_web_socket_messages_sent'', CounterValue,
      ''The total number messages sent through COLIBRI web sockets.''),
    (''total_bytes_sent_octo'', CounterValue,
      ''Total octo bytes sent.''),
    (''total_data_channel_messages_received'', CounterValue,
      ''Total data channel messages received.''),
    (''total_conference_seconds'', CounterValue,
      ''The sum of the lengths of all completed conferences, in seconds.''),
    (''total_bytes_received'', CounterValue,
      ''Total bytes received.''),
    (''total_loss_controlled_participant_seconds'', CounterValue,
      ''The total number of participant-seconds that are loss-controlled.''),
    (''total_partially_failed_conferences'', CounterValue,
      ''The total number of partially failed conferences on the bridge. A conference is marked as partially failed when some of its channels has failed. A channel is marked as failed if it had no payload activity.''),
    (''bit_rate_upload'', GaugeValue,
      ''Current upload rate in kbit/s.''),
    (''total_conferences_completed'', CounterValue,
      ''Total conferences completed.''),
    (''total_bytes_sent'', CounterValue,
      ''The number of total bytes sent.''),
    (''total_failed_conferences'', CounterValue,
      ''The total number of failed conferences on the bridge. A conference is marked as failed when all of its channels have failed. A channel is marked as failed if it had no payload activity.''),
    (''conferences_by_audio_senders'', UntypedValue,
      ''Histogram of conferences by number of audio senders (ie. how many conferences have 5 audio senders and so on)''),
    (''conferences_by_video_senders'', UntypedValue,
      ''Histogram of conferences by number of video senders (ie. how many conferences have 5 video senders and so on)''),
    (''dtls_failed_endpoints'', GaugeValue,
      ''The number of failed dtls endpoints on the bridge. An endpoint has failed DTLS if it has completed ICE but not.''),
    (''endpoints_sending_audio'', GaugeValue,
      ''The number of endpoints which are sending audio.''),
    (''endpoints_sending_video'', GaugeValue,
      ''The number of endpoints which are sending video.''),
    (''inactive_conferences'', GaugeValue,
      ''The number of inactive conferences.''),
    (''inactive_endpoints'', GaugeValue,
      ''The number of inactive endpoints.''),
    (''incoming_loss'', GaugeValue,
      ''The percentage of incoming packets which are lost.''),
    (''muc_clients_configured'', GaugeValue,
      ''The number of configured muc clients.''),
    (''muc_clients_connected'', GaugeValue,
      ''The number of connected muc clients.''),
    (''mucs_configured'', GaugeValue,
      ''The number of configured mucs.''),
    (''mucs_joined'', GaugeValue,
      ''The number of joined mucs.''),
    (''num_eps_no_msg_transport_after_delay'', GaugeValue,
      ''The number of endpoints with no message transport after delay.''),
    (''octo_conferences'', GaugeValue,
      ''The number of conferences using Octo''),
    (''octo_endpoints'', GaugeValue,
      ''The number of endpoints using Octo''),
    (''octo_receive_bitrate'', GaugeValue,
      ''The bitrate of data being received from Octo''),
    (''octo_receive_packet_rate'', GaugeValue,
      ''The rate of packets being received from Octo''),
    (''octo_send_bitrate'', GaugeValue,
      ''The bitrate of data being send to Octo''),
    (''octo_send_packet_rate'', GaugeValue,
      ''The rate of packets being send to Octo''),
    (''outgoing_loss'', GaugeValue,
      ''The percentage of outgoing packets which are lost.''),
    (''overall_loss'', GaugeValue,
      ''The overall percentage of packets which are lost.''),
    (''p2p_conferences'', GaugeValue,
      ''The number of P2P conferences.''),
    (''receive_only_endpoints'', GaugeValue,
      ''The number of endpoints which are sending neither audio nor video and aren't inactive.''),
    (''stress_level'', GaugeValue,
      ''The stress level.''),
    (''total_conferences_created'', CounterValue,
      ''The total number of conferences created.''),
    (''total_dominant_speaker_changes'', CounterValue,
      ''The total number of dominant speaker changes.''),
    (''total_ice_failed'', CounterValue,
      ''The total number of failed ICE connections.''),
    (''total_ice_succeeded'', CounterValue,
      ''The total number of succeeded ICE connections.''),
    (''total_ice_succeeded_relayed'', CounterValue,
      ''The total number of succeeded ICE connections which are relayed.''),
    (''total_packets_dropped_octo'', CounterValue,
      ''The total number of packets dropped to or from Octo.''),
    (''total_participants'', CounterValue,
      ''The total number of participants.'')]"

definition NewJvbCollector :: "string \<Rightarrow> string \<Rightarrow> duration \<Rightarrow> JvbCollector" where
  "NewJvbCollector namespace subsystem retention =
     (let namePrefix0 = '''';
          namePrefix1 = (if subsystem \<noteq> '''' then (namePrefix0 @ subsystem) @ ''_''
                         else namePrefix0);
          namePrefix2 = (if namespace \<noteq> '''' then (namePrefix1 @ namespace) @ ''_''
                         else namePrefix1);
          constLabels0 = [(''app'', ''jitsi'')]
      in \<lparr>NamePrefix = namePrefix2, Retention = retention, statsSets = [],
          metrics = map (\<lambda>(n, t, h). newMetric (namePrefix2 @ n) t h [''jvb_instance''] constLabels0)
                      catalog\<rparr>)"

section \<open>Collect\<close>

text \<open>
  The parts of Go and of the Prometheus client that the collector calls and that are not
  code of this repository are arguments of the model: \<open>ParseFloat\<close> is
  \<^verbatim>\<open>strconv.ParseFloat(s, 64)\<close>, with \<open>None\<close> for an error; \<open>float64_of_uint64\<close> is the
  conversion \<^verbatim>\<open>float64(sum)\<close>, which rounds above \<open>2^53\<close>; \<open>desc_err\<close> says that the
  descriptor was refused when it was made (\<^verbatim>\<open>desc.err != nil\<close>); \<open>valid_label_value\<close> is the
  client's check of a label value. The type \<open>'f\<close> stands for \<^verbatim>\<open>float64\<close>.
\<close>

record 'f go_lib =
  ParseFloat :: "string \<Rightarrow> 'f option"
  float64_of_uint64 :: "uint64 \<Rightarrow> 'f"
  desc_err :: "Desc \<Rightarrow> bool"
  valid_label_value :: "string \<Rightarrow> bool"

text \<open>What is sent on the channel: a constant metric or a constant histogram.\<close>

datatype 'f Metric =
    constMetric (m_desc: Desc) (m_valType: ValueType) (m_val: 'f) (m_labelValues: "string list")
  | constHistogram (m_desc: Desc) (m_count: uint64) (m_sum: 'f)
      (m_buckets: "real \<rightharpoonup> uint64") (m_labelValues: "string list")

text \<open>The variable labels of a metric: the descriptor's label names with the values given.\<close>

definition variable_labels :: "'f Metric \<Rightarrow> (string \<times> string) list" where
  "variable_labels m = zip (variableLabels (m_desc m)) (m_labelValues m)"

definition validateLabelValues :: "'f go_lib \<Rightarrow> string list \<Rightarrow> nat \<Rightarrow> bool" where
  "validateLabelValues lib vals expectedNumberOfValues =
     (if length vals \<noteq> expectedNumberOfValues then False
      else list_all (valid_label_value lib) vals)"

definition prometheus_NewConstMetric ::
  "'f go_lib \<Rightarrow> Desc \<Rightarrow> ValueType \<Rightarrow> 'f \<Rightarrow> string list \<Rightarrow> 'f Metric option" where
  "prometheus_NewConstMetric lib d valueType v labelValues =
     (if desc_err lib d then None
      else if \<not> validateLabelValues lib labelValues (length (variableLabels d)) then None
      else Some (constMetric d valueType v labelValues))"

definition prometheus_NewConstHistogram ::
  "'f go_lib \<Rightarrow> Desc \<Rightarrow> uint64 \<Rightarrow> 'f \<Rightarrow> (real \<rightharpoonup> uint64) \<Rightarrow> string list \<Rightarrow> 'f Metric option" where
  "prometheus_NewConstHistogram lib d count0 sum0 buckets labelValues =
     (if desc_err lib d then None
      else if \<not> validateLabelValues lib labelValues (length (variableLabels d)) then None
      else Some (constHistogram d count0 sum0 buckets labelValues))"

text \<open>
  A \<^verbatim>\<open>for ... range\<close> loop whose body sends metrics on the channel: the metrics sent, in
  order, or the panic that ended the loop.
\<close>

fun for_each :: "('a \<Rightarrow> panic + 'b list) \<Rightarrow> 'a list \<Rightarrow> panic + 'b list" where
  "for_each body [] = Inr []"
| "for_each body (x # xs) =
     (case body x of
        Inl p \<Rightarrow> Inl p
      | Inr out \<Rightarrow> (case for_each body xs of Inl p \<Rightarrow> Inl p | Inr outs \<Rightarrow> Inr (out @ outs)))"

text \<open>
  The body of the innermost loop, for one stats set, one stat and one metric of the
  collector. Every \<^verbatim>\<open>continue\<close> after a message printed is the result \<open>Inr []\<close>: the
  messages that \<^verbatim>\<open>fmt.Printf\<close> writes are not part of the model.
\<close>

definition collect_metric ::
  "'f go_lib \<Rightarrow> JvbCollector \<Rightarrow> statsSet \<Rightarrow> Stat \<Rightarrow> metric \<Rightarrow> panic + 'f Metric list" where
  "collect_metric lib c sset stat m =
     (if name m = NamePrefix c @ Name stat then
        if Name stat = ''conference_sizes'' \<or> Name stat = ''conferences_by_audio_senders''
           \<or> Name stat = ''conferences_by_video_senders''
        then
          (case bucketsHelper (Value stat) of
             Inl p \<Rightarrow> Inl p
           | Inr (buckets, sum0) \<Rightarrow>
               (case prometheus_NewConstHistogram lib (desc m) sum0 (float64_of_uint64 lib sum0)
                       buckets [jvbIdentifier sset] of
                  None \<Rightarrow> Inr []
                | Some hm \<Rightarrow> Inr [hm]))
        else
          (case ParseFloat lib (Value stat) of
             None \<Rightarrow> Inr []
           | Some v \<Rightarrow>
               (case prometheus_NewConstMetric lib (desc m) (metricType m) v
                       [jvbIdentifier sset] of
                  None \<Rightarrow> Inr []
                | Some cm \<Rightarrow> Inr [cm]))
      else Inr [])"

definition collect_stat ::
  "'f go_lib \<Rightarrow> JvbCollector \<Rightarrow> statsSet \<Rightarrow> Stat \<Rightarrow> panic + 'f Metric list" where
  "collect_stat lib c sset stat = for_each (collect_metric lib c sset stat) (metrics c)"

definition collect_set ::
  "'f go_lib \<Rightarrow> JvbCollector \<Rightarrow> time \<Rightarrow> statsSet \<Rightarrow> panic + 'f Metric list" where
  "collect_set lib c now sset =
     (if now - lastUpdated sset \<le> Retention c
      then for_each (collect_stat lib c sset) (Stats (stats sset))
      else Inr [])"

text \<open>
  \<^verbatim>\<open>Collect\<close> has a pointer receiver: the model returns the collector as the call leaves
  it, beside the metrics sent. The source reads the clock in \<^verbatim>\<open>time.Since\<close> once for each
  stats set; the model takes one reading \<open>now\<close> for the whole call.
\<close>

definition JvbCollector_Collect ::
  "'f go_lib \<Rightarrow> JvbCollector \<Rightarrow> time \<Rightarrow> panic + ('f Metric list \<times> JvbCollector)" where
  "JvbCollector_Collect lib c now =
     (case for_each (collect_set lib c now) (statsSets c) of
        Inl p \<Rightarrow> Inl p
      | Inr out \<Rightarrow> Inr (out, c))"

section \<open>Update\<close>

text \<open>
  The argument \<^verbatim>\<open>stats *Stats\<close> is a pointer, \<open>None\<close> when it is nil; \<^verbatim>\<open>*stats\<close> then
  panics. The loop returns at the first stats set with the identifier, so \<open>update_loop\<close>
  gives \<open>Some\<close> of the sets as that return leaves them, and \<open>None\<close> when the loop ends
  without it. A call that panics returns no collector: the write of \<^verbatim>\<open>lastUpdated\<close> that
  comes before the dereference of a nil pointer is lost with it.
\<close>

fun update_loop ::
  "statsSet list \<Rightarrow> string \<Rightarrow> Stats option \<Rightarrow> time \<Rightarrow> panic + statsSet list option" where
  "update_loop [] identifier stats0 now = Inr None"
| "update_loop (s # ss) identifier stats0 now =
     (if jvbIdentifier s = identifier then
        (case stats0 of
           None \<Rightarrow> Inl NilPointerDereference
         | Some st \<Rightarrow> Inr (Some (s\<lparr>lastUpdated := now, stats := st\<rparr> # ss)))
      else
        (case update_loop ss identifier stats0 now of
           Inl p \<Rightarrow> Inl p
         | Inr None \<Rightarrow> Inr None
         | Inr (Some ss') \<Rightarrow> Inr (Some (s # ss'))))"

definition JvbCollector_Update ::
  "JvbCollector \<Rightarrow> string \<Rightarrow> Stats option \<Rightarrow> time \<Rightarrow> panic + JvbCollector" where
  "JvbCollector_Update c identifier stats0 now =
     (case update_loop (statsSets c) identifier stats0 now of
        Inl p \<Rightarrow> Inl p
      | Inr (Some ss) \<Rightarrow> Inr (c\<lparr>statsSets := ss\<rparr>)
      | Inr None \<Rightarrow>
          (case stats0 of
             None \<Rightarrow> Inl NilPointerDereference
           | Some st \<Rightarrow>
               Inr (c\<lparr>statsSets := statsSets c @
                      [\<lparr>lastUpdated = now, stats = st, jvbIdentifier = identifier\<rparr>]\<rparr>)))"

text \<open>A sequence of calls of \<^verbatim>\<open>Update\<close>, each with its identifier, its pointer and the
  clock's reading; a panic ends it.\<close>

fun Updates :: "JvbCollector \<Rightarrow> (string \<times> Stats option \<times> time) list \<Rightarrow> panic + JvbCollector" where
  "Updates c [] = Inr c"
| "Updates c ((identifier, stats0, now) # calls) =
     (case JvbCollector_Update c identifier stats0 now of
        Inl p \<Rightarrow> Inl p
      | Inr c' \<Rightarrow> Updates c' calls)"

section \<open>What the loops of Collect send\<close>

text \<open>
  The metrics that the loop body sends for one metric of the collector, then for one stat
  (over all the metrics), then for one stats set (over all its stats) once it has passed
  the retention test.
\<close>

definition emitted :: "'f go_lib \<Rightarrow> JvbCollector \<Rightarrow> statsSet \<Rightarrow> Stat \<Rightarrow> metric \<Rightarrow> 'f Metric list" where
  "emitted lib c sset stat m = (case collect_metric lib c sset stat m of Inl p \<Rightarrow> [] | Inr out \<Rightarrow> out)"

definition stat_output :: "'f go_lib \<Rightarrow> JvbCollector \<Rightarrow> statsSet \<Rightarrow> Stat \<Rightarrow> 'f Metric list" where
  "stat_output lib c sset stat = concat (map (emitted lib c sset stat) (metrics c))"

definition set_output :: "'f go_lib \<Rightarrow> JvbCollector \<Rightarrow> statsSet \<Rightarrow> 'f Metric list" where
  "set_output lib c sset = concat (map (stat_output lib c sset) (Stats (stats sset)))"

text \<open>The metrics that one call of \<^verbatim>\<open>Collect\<close> sends.\<close>

definition collect_output :: "'f go_lib \<Rightarrow> JvbCollector \<Rightarrow> time \<Rightarrow> 'f Metric list" where
  "collect_output lib c now =
     (case JvbCollector_Collect lib c now of Inl p \<Rightarrow> [] | Inr (out, c') \<Rightarrow> out)"

text \<open>The names of the stats that \<^verbatim>\<open>Collect\<close> treats as histograms.\<close>

definition histogram_like :: "string \<Rightarrow> bool" where
  "histogram_like n =
     (n = ''conference_sizes'' \<or> n = ''conferences_by_audio_senders''
      \<or> n = ''conferences_by_video_senders'')"

section \<open>An example run\<close>

text \<open>
  A library in which \<^verbatim>\<open>ParseFloat\<close> reads two numerals and refuses every other string,
  every descriptor and label value is accepted, and \<^verbatim>\<open>float64\<close> is modelled by the
  reals. One instance reports a gauge, a stat that the collector does not know, a gauge
  whose value is not a number, and a histogram. Times are in nanoseconds: the retention
  is 30 s and the update is made at 1000 s.
\<close>

definition example_lib :: "real go_lib" where
  "example_lib =
     \<lparr>ParseFloat = (\<lambda>s. if s = ''5'' then Some 5 else if s = ''7'' then Some 7 else None),
      float64_of_uint64 = (\<lambda>w. real (unat w)),
      desc_err = (\<lambda>d. False),
      valid_label_value = (\<lambda>v. True)\<rparr>"

definition example_stats :: Stats where
  "example_stats =
     \<lparr>Stats = [\<lparr>Name = ''participants'', Value = ''5''\<rparr>,
               \<lparr>Name = ''no_such_stat'', Value = ''7''\<rparr>,
               \<lparr>Name = ''threads'', Value = ''not-a-number''\<rparr>,
               \<lparr>Name = ''conference_sizes'', Value = ''[2,3,5,1]''\<rparr>]\<rparr>"

definition example_set :: statsSet where
  "example_set =
     \<lparr>lastUpdated = 1000000000000, stats = example_stats, jvbIdentifier = ''jvb-1''\<rparr>"

definition example_collector :: JvbCollector where
  "example_collector = (NewJvbCollector '''' '''' 30000000000)\<lparr>statsSets := [example_set]\<rparr>"

definition example_gauge :: "real Metric" where
  "example_gauge =
     constMetric
       (prometheus_NewDesc ''participants'' ''The current number of participants.''
          [''jvb_instance''] [(''app'', ''jitsi'')])
       GaugeValue 5 [''jvb-1'']"

definition example_histogram :: "real Metric" where
  "example_histogram =
     constHistogram
       (prometheus_NewDesc ''conference_sizes''
          ''histogram of conference sizes (ie. how many conferences have 5 participants and so on)''
          [''jvb_instance''] [(''app'', ''jitsi'')])
       11 11 [0 \<mapsto> 2, 1 \<mapsto> 5, 2 \<mapsto> 10] [''jvb-1'']"

text \<open>A second instance, which reports one gauge 5 s after the first, and the cache with both.\<close>

definition example_set2 :: statsSet where
  "example_set2 =
     \<lparr>lastUpdated = 1005000000000,
      stats = \<lparr>Stats = [\<lparr>Name = ''participants'', Value = ''7''\<rparr>]\<rparr>,
      jvbIdentifier = ''jvb-2''\<rparr>"

definition example_collector2 :: JvbCollector where
  "example_collector2 = example_collector\<lparr>statsSets := [example_set, example_set2]\<rparr>"

definition example_gauge2 :: "real Metric" where
  "example_gauge2 =
     constMetric
       (prometheus_NewDesc ''participants'' ''The current number of participants.''
          [''jvb_instance''] [(''app'', ''jitsi'')])
       GaugeValue 7 [''jvb-2'']"

section \<open>The number that a string of decimal digits denotes\<close>

text \<open>
  \<open>decimal_from a s\<close> reads the characters of \<open>s\<close> as decimal digits after the number
  \<open>a\<close>, without any bound; \<open>decimal_value s\<close> is the natural number that the digit string
  \<open>s\<close> denotes. They say what \<^verbatim>\<open>strconv.ParseUint\<close> returns.
\<close>

fun decimal_from :: "nat \<Rightarrow> string \<Rightarrow> nat" where
  "decimal_from a [] = a"
| "decimal_from a (c # cs) = decimal_from (10 * a + (of_char c - 48)) cs"

definition decimal_value :: "string \<Rightarrow> nat" where
  "decimal_value s = decimal_from 0 s"

text \<open>
  What one field of a histogram value contributes to the counts, said without the parser:
  \<open>2^64 - 1\<close> when the digits it starts with denote more than \<open>2^64 - 1\<close>; the number it
  denotes when it is a non-empty string of decimal digits; 0 in every other case.
\<close>

definition field_count :: "string \<Rightarrow> uint64" where
  "field_count v =
     (if 18446744073709551616 \<le> decimal_value (takeWhile is_digit v) then 18446744073709551615
      else if v \<noteq> [] \<and> list_all is_digit v then of_nat (decimal_value v)
      else 0)"

section \<open>Properties of the library functions\<close>

lemma split_from_nonempty: "split_from sep field s \<noteq> []"
  by (induction s arbitrary: field) auto

lemma decimal_from_mono: "a \<le> decimal_from a s"
proof (induction s arbitrary: a)
  case Nil
  then show ?case by simp
next
  case (Cons c cs)
  have "a \<le> 10 * a + (of_char c - 48)" by simp
  also have "\<dots> \<le> decimal_from (10 * a + (of_char c - 48)) cs" by (rule Cons.IH)
  finally show ?case by simp
qed

lemma unat_of_nat_uint64: "a < 18446744073709551616 \<Longrightarrow> unat (of_nat a :: uint64) = a"
  by (simp add: unat_of_nat)

lemma unat_uint64_less: "unat (w :: uint64) < 18446744073709551616"
  using unsigned_less [of w, where ?'a = nat] by simp

lemma ParseUint_step:
  assumes a: "a < 18446744073709551616" and d: "d \<le> 9"
  shows "(cutoff \<le> (of_nat a :: uint64)
          \<or> (of_nat a :: uint64) * 10 + of_nat d < of_nat a * 10
          \<or> maxUint64 < (of_nat a :: uint64) * 10 + of_nat d)
         \<longleftrightarrow> 18446744073709551616 \<le> 10 * a + d"
proof -
  have ua: "unat (of_nat a :: uint64) = a"
    using a by (rule unat_of_nat_uint64)
  have n1: "(of_nat a :: uint64) * 10 + of_nat d = of_nat (10 * a + d)"
    by simp
  have n0: "(of_nat a :: uint64) * 10 = of_nat (10 * a)"
    by simp
  have u0: "unat ((of_nat a :: uint64) * 10) = (10 * a) mod 18446744073709551616"
    by (simp only: n0 unat_of_nat) simp
  have u1: "unat ((of_nat a :: uint64) * 10 + of_nat d) = (10 * a + d) mod 18446744073709551616"
    by (simp only: n1 unat_of_nat) simp
  have ucut: "unat cutoff = 1844674407370955162"
    by (simp add: cutoff_def)
  have umax: "unat maxUint64 = 18446744073709551615"
    by (simp add: maxUint64_def)
  have nat_step: "(1844674407370955162 \<le> a
          \<or> (10 * a + d) mod 18446744073709551616 < (10 * a) mod 18446744073709551616
          \<or> 18446744073709551615 < (10 * a + d) mod 18446744073709551616)
         \<longleftrightarrow> 18446744073709551616 \<le> 10 * a + d"
  proof (cases "1844674407370955162 \<le> a")
    case True
    then show ?thesis by simp
  next
    case False
    then have small: "10 * a < 18446744073709551616" by simp
    then have m0: "(10 * a) mod 18446744073709551616 = 10 * a" by simp
    have mmax: "\<not> 18446744073709551615 < (10 * a + d) mod 18446744073709551616"
    proof -
      have "(10 * a + d) mod 18446744073709551616 < 18446744073709551616"
        by (rule mod_less_divisor) simp
      then show ?thesis by simp
    qed
    show ?thesis
    proof (cases "10 * a + d < 18446744073709551616")
      case True
      then have "(10 * a + d) mod 18446744073709551616 = 10 * a + d" by simp
      then show ?thesis using True False mmax m0 by simp
    next
      case wrap: False
      have "(10 * a + d) mod 18446744073709551616
              = (10 * a + d - 18446744073709551616) mod 18446744073709551616"
        using wrap by (simp add: le_mod_geq)
      also have "\<dots> = 10 * a + d - 18446744073709551616"
        using small d by simp
      finally have "(10 * a + d) mod 18446744073709551616 < 10 * a"
        using d wrap by simp
      then show ?thesis using wrap m0 by simp
    qed
  qed
  show ?thesis
    unfolding word_less_nat_alt word_le_nat_alt u0 u1 ua ucut umax
    by (rule nat_step)
qed

lemma is_digit_val:
  "is_digit c \<Longrightarrow> digit_val c = of_nat (of_char c - 48) \<and> (of_char c :: nat) - 48 \<le> 9"
  unfolding is_digit_def digit_val_def by auto

lemma ParseUint_loop_decimal:
  "a < 18446744073709551616 \<Longrightarrow>
   ParseUint_loop (of_nat a) s =
     (if 18446744073709551616 \<le> decimal_from a (takeWhile is_digit s)
        then (maxUint64, Some ErrRange)
      else if list_all is_digit s then (of_nat (decimal_from a s), None)
      else (0, Some ErrSyntax))"
proof (induction s arbitrary: a)
  case Nil
  then show ?case by simp
next
  case (Cons c cs)
  show ?case
  proof (cases "is_digit c")
    case False
    then show ?thesis using Cons.prems by simp
  next
    case True
    let ?d = "(of_char c :: nat) - 48"
    let ?a' = "10 * a + ?d"
    from True have dv: "digit_val c = of_nat ?d" and d9: "?d \<le> 9"
      using is_digit_val by blast+
    note step = ParseUint_step [OF Cons.prems d9]
    have mono: "?a' \<le> decimal_from ?a' (takeWhile is_digit cs)"
      by (rule decimal_from_mono)
    show ?thesis
    proof (cases "18446744073709551616 \<le> ?a'")
      case over: True
      then have "ParseUint_loop (of_nat a) (c # cs) = (maxUint64, Some ErrRange)"
        using step True by (auto simp add: dv mult.commute)
      moreover have "18446744073709551616 \<le> decimal_from a (takeWhile is_digit (c # cs))"
        using over mono True by simp
      ultimately show ?thesis by simp
    next
      case fits: False
      then have lt: "?a' < 18446744073709551616" by simp
      have "ParseUint_loop (of_nat a) (c # cs) = ParseUint_loop (of_nat ?a') cs"
        using step True fits by (auto simp add: dv mult.commute)
      then show ?thesis
        using Cons.IH [OF lt] True by simp
    qed
  qed
qed

lemma strconv_ParseUint_decimal:
  "strconv_ParseUint s =
     (if 18446744073709551616 \<le> decimal_value (takeWhile is_digit s)
        then (maxUint64, Some ErrRange)
      else if s \<noteq> [] \<and> list_all is_digit s then (of_nat (decimal_value s), None)
      else (0, Some ErrSyntax))"
  using ParseUint_loop_decimal [of 0 s]
  by (auto simp add: strconv_ParseUint_def decimal_value_def)

section \<open>The loops of bucketsHelper in closed form\<close>

lemma foldl_add_sum_list: "foldl (\<lambda>s v. s + v) a vs = a + sum_list (vs :: uint64 list)"
  by (induction vs arbitrary: a) (simp_all add: add.assoc)

lemma cumulative_loop_sum:
  "n \<le> length values \<Longrightarrow> cumulative_loop values n c = Inr (c + sum_list (take n values))"
proof (induction n arbitrary: c)
  case 0
  then show ?case by simp
next
  case (Suc j)
  then have "j < length values" by simp
  then have "sum_list (take (Suc j) values) = sum_list (take j values) + values ! j"
    by (simp add: take_Suc_conv_app_nth)
  with Suc show ?case by (simp add: add.assoc add.commute)
qed

lemma buckets_loop_prefix_sums:
  "n \<le> length values \<Longrightarrow>
   buckets_loop values n = Inr (map (\<lambda>k. sum_list (take (Suc k) values)) [0..<n] @ drop n values)"
proof (induction n arbitrary: "values")
  case 0
  then show ?case by simp
next
  case (Suc i)
  then have i: "i < length values" by simp
  let ?s = "sum_list (take (Suc i) values)"
  let ?vs = "values[i := ?s]"
  have c: "cumulative_loop values (Suc i) 0 = Inr ?s"
    using cumulative_loop_sum [of "Suc i" "values" 0] Suc.prems by simp
  have "buckets_loop ?vs i = Inr (map (\<lambda>k. sum_list (take (Suc k) ?vs)) [0..<i] @ drop i ?vs)"
    using Suc.IH [of ?vs] i by simp
  moreover have "map (\<lambda>k. sum_list (take (Suc k) ?vs)) [0..<i] = map (\<lambda>k. sum_list (take (Suc k) values)) [0..<i]"
    by (rule map_cong) (simp_all add: take_update_cancel)
  moreover have "drop i ?vs = ?s # drop (Suc i) values"
    using i by (simp add: drop_update_cancel Cons_nth_drop_Suc [symmetric] upd_conv_take_nth_drop)
  ultimately show ?case using c i by simp
qed

lemma fill_histogram_other:
  "(\<And>j. j < length vs \<Longrightarrow> k \<noteq> real (i + j)) \<Longrightarrow> fill_histogram h i vs k = h k"
proof (induction vs arbitrary: h i)
  case Nil
  then show ?case by simp
next
  case (Cons v vs)
  have "k \<noteq> real (Suc i + j)" if "j < length vs" for j
    using Cons.prems [of "Suc j"] that by simp
  then have "fill_histogram (h(real i \<mapsto> v)) (Suc i) vs k = (h(real i \<mapsto> v)) k"
    by (rule Cons.IH)
  moreover have "k \<noteq> real i" using Cons.prems [of 0] by simp
  ultimately show ?case by simp
qed

lemma fill_histogram_at:
  "j < length vs \<Longrightarrow> fill_histogram h i vs (real (i + j)) = Some (vs ! j)"
proof (induction vs arbitrary: h i j)
  case Nil
  then show ?case by simp
next
  case (Cons v vs)
  show ?case
  proof (cases j)
    case 0
    have "fill_histogram (h(real i \<mapsto> v)) (Suc i) vs (real i) = (h(real i \<mapsto> v)) (real i)"
      by (rule fill_histogram_other) simp
    with 0 show ?thesis by simp
  next
    case (Suc j')
    with Cons.prems have "j' < length vs" by simp
    then have "fill_histogram (h(real i \<mapsto> v)) (Suc i) vs (real (Suc i + j')) = Some (vs ! j')"
      by (rule Cons.IH)
    with Suc show ?thesis by simp
  qed
qed

lemma dom_fill_histogram:
  "dom (fill_histogram h i vs) = dom h \<union> real ` {i..<i + length vs}"
proof (induction vs arbitrary: h i)
  case Nil
  then show ?case by simp
next
  case (Cons v vs)
  have "{i..<i + length (v # vs)} = insert i {Suc i..<Suc i + length vs}"
    by auto
  then show ?case by (auto simp add: Cons.IH)
qed

lemma unat_sum_list:
  "unat (sum_list (ws :: uint64 list)) = sum_list (map unat ws) mod 2 ^ 64"
proof (induction ws)
  case Nil
  then show ?case by simp
next
  case (Cons w ws)
  have "unat (w + sum_list ws) = (unat w + unat (sum_list ws)) mod 2 ^ 64"
    by (simp add: unat_word_ariths)
  also have "\<dots> = (unat w + sum_list (map unat ws)) mod 2 ^ 64"
    by (simp add: Cons.IH mod_add_right_eq)
  finally show ?case by simp
qed

lemma parsed_counts_nonempty: "parsed_counts value \<noteq> []"
  by (simp add: parsed_counts_def strings_Split_def split_from_nonempty)

lemma bucketsHelper_closed_form:
  "bucketsHelper value =
     Inr (fill_histogram Map.empty 0
            (map (\<lambda>k. sum_list (take (Suc k) (parsed_counts value)))
               [0..<length (parsed_counts value) - 1]),
          sum_list (parsed_counts value))"
proof -
  let ?cs = "parsed_counts value"
  let ?n = "length ?cs - 1"
  have "buckets_loop (take ?n ?cs) ?n =
          Inr (map (\<lambda>k. sum_list (take (Suc k) (take ?n ?cs))) [0..<?n] @ drop ?n (take ?n ?cs))"
    by (rule buckets_loop_prefix_sums) simp
  also have "map (\<lambda>k. sum_list (take (Suc k) (take ?n ?cs))) [0..<?n] =
      map (\<lambda>k. sum_list (take (Suc k) ?cs)) [0..<?n]"
    by (rule map_cong) (simp_all add: min_def)
  also have "drop ?n (take ?n ?cs) = []"
    by simp
  finally have "buckets_loop (take ?n ?cs) ?n = Inr (map (\<lambda>k. sum_list (take (Suc k) ?cs)) [0..<?n])"
    by simp
  then show ?thesis
    using parsed_counts_nonempty [of "value"]
    by (simp add: bucketsHelper_def Let_def foldl_add_sum_list)
qed

section \<open>The loops of Collect and Update\<close>

lemma for_each_Inr:
  "(\<And>x. x \<in> set xs \<Longrightarrow> body x = Inr (f x)) \<Longrightarrow> for_each body xs = Inr (concat (map f xs))"
  by (induction xs) simp_all

lemma collect_metric_emitted:
  "collect_metric lib c sset stat m = Inr (emitted lib c sset stat m)"
proof -
  obtain r where "bucketsHelper (Value stat) = Inr r"
    by (simp add: bucketsHelper_closed_form)
  then have "\<exists>out. collect_metric lib c sset stat m = Inr out"
    by (cases r) (simp add: collect_metric_def split: option.split)
  then show ?thesis by (auto simp add: emitted_def)
qed

lemma collect_stat_output:
  "collect_stat lib c sset stat = Inr (stat_output lib c sset stat)"
  unfolding collect_stat_def stat_output_def
  by (rule for_each_Inr) (rule collect_metric_emitted)

lemma collect_set_output:
  "collect_set lib c now sset =
     Inr (if now - lastUpdated sset \<le> Retention c then set_output lib c sset else [])"
  by (simp add: collect_set_def set_output_def for_each_Inr [OF collect_stat_output])

lemma Collect_output:
  "JvbCollector_Collect lib c now =
     Inr (concat (map (\<lambda>sset. if now - lastUpdated sset \<le> Retention c
                              then set_output lib c sset else []) (statsSets c)), c)"
  by (simp add: JvbCollector_Collect_def for_each_Inr [OF collect_set_output])

lemma concat_map_if_filter:
  "concat (map (\<lambda>x. if P x then f x else []) xs) = concat (map f (filter P xs))"
  by (induction xs) simp_all

lemma update_loop_absent:
  "identifier \<notin> jvbIdentifier ` set ss \<Longrightarrow> update_loop ss identifier stats0 now = Inr None"
  by (induction ss) auto

lemma filter_absent: "j \<notin> jvbIdentifier ` set ss \<Longrightarrow> filter (\<lambda>s. jvbIdentifier s = j) ss = []"
  by (auto simp add: filter_empty_conv)

lemma update_loop_present:
  "identifier \<in> jvbIdentifier ` set ss \<Longrightarrow>
   \<exists>ss'. update_loop ss identifier (Some st) now = Inr (Some ss')
     \<and> map jvbIdentifier ss' = map jvbIdentifier ss
     \<and> (distinct (map jvbIdentifier ss) \<longrightarrow>
          (\<forall>j. filter (\<lambda>s. jvbIdentifier s = j) ss' =
             (if j = identifier
              then [\<lparr>lastUpdated = now, stats = st, jvbIdentifier = identifier\<rparr>]
              else filter (\<lambda>s. jvbIdentifier s = j) ss)))"
proof (induction ss)
  case Nil
  then show ?case by simp
next
  case (Cons s ss)
  show ?case
  proof (cases "jvbIdentifier s = identifier")
    case True
    have "filter (\<lambda>x. jvbIdentifier x = identifier) ss = []" if "distinct (map jvbIdentifier (s # ss))"
    proof (rule filter_absent)
      show "identifier \<notin> jvbIdentifier ` set ss" using that True by auto
    qed
    then show ?thesis using True by (cases s) auto
  next
    case False
    with Cons.prems have "identifier \<in> jvbIdentifier ` set ss" by auto
    from Cons.IH [OF this] obtain ss' where ss':
      "update_loop ss identifier (Some st) now = Inr (Some ss')"
      "map jvbIdentifier ss' = map jvbIdentifier ss"
      "distinct (map jvbIdentifier ss) \<longrightarrow>
          (\<forall>j. filter (\<lambda>s. jvbIdentifier s = j) ss' =
             (if j = identifier
              then [\<lparr>lastUpdated = now, stats = st, jvbIdentifier = identifier\<rparr>]
              else filter (\<lambda>s. jvbIdentifier s = j) ss))"
      by blast
    then show ?thesis using False by auto
  qed
qed

lemma Update_step:
  assumes "distinct (map jvbIdentifier (statsSets c))"
  shows "\<exists>c'. JvbCollector_Update c identifier (Some st) now = Inr c'
     \<and> distinct (map jvbIdentifier (statsSets c'))
     \<and> NamePrefix c' = NamePrefix c \<and> Retention c' = Retention c \<and> metrics c' = metrics c
     \<and> (\<forall>j. filter (\<lambda>s. jvbIdentifier s = j) (statsSets c') =
             (if j = identifier
              then [\<lparr>lastUpdated = now, stats = st, jvbIdentifier = identifier\<rparr>]
              else filter (\<lambda>s. jvbIdentifier s = j) (statsSets c)))"
proof (cases "identifier \<in> jvbIdentifier ` set (statsSets c)")
  case True
  from update_loop_present [OF True, of st now] assms obtain ss' where
    "update_loop (statsSets c) identifier (Some st) now = Inr (Some ss')"
    "map jvbIdentifier ss' = map jvbIdentifier (statsSets c)"
    "\<forall>j. filter (\<lambda>s. jvbIdentifier s = j) ss' =
             (if j = identifier
              then [\<lparr>lastUpdated = now, stats = st, jvbIdentifier = identifier\<rparr>]
              else filter (\<lambda>s. jvbIdentifier s = j) (statsSets c))"
    by blast
  with assms show ?thesis by (simp add: JvbCollector_Update_def)
next
  case False
  then show ?thesis
    using assms update_loop_absent [OF False, of "Some st" now]
    by (auto simp add: JvbCollector_Update_def filter_absent)
qed

section \<open>What Collect sends, stat by stat\<close>

lemma NewJvbCollector_fields:
  "NamePrefix (NewJvbCollector namespace subsystem retention) =
     (if subsystem \<noteq> [] then subsystem @ ''_'' else []) @ (if namespace \<noteq> [] then namespace @ ''_'' else [])"
  "Retention (NewJvbCollector namespace subsystem retention) = retention"
  "statsSets (NewJvbCollector namespace subsystem retention) = []"
  "metrics (NewJvbCollector namespace subsystem retention) =
     map (\<lambda>(n, t, h). newMetric (NamePrefix (NewJvbCollector namespace subsystem retention) @ n) t h
            [''jvb_instance''] [(''app'', ''jitsi'')]) catalog"
  by (simp_all add: NewJvbCollector_def Let_def)

lemma catalog_names_distinct: "distinct (map fst catalog)"
  by (simp add: catalog_def)

lemma catalog_participants:
  "(''participants'', GaugeValue, ''The current number of participants.'') \<in> set catalog"
  by (simp add: catalog_def)

lemma catalog_threads:
  "(''threads'', GaugeValue, ''The current number of threads.'') \<in> set catalog"
  by (simp add: catalog_def)

lemma catalog_conference_sizes:
  "(''conference_sizes'', UntypedValue,
    ''histogram of conference sizes (ie. how many conferences have 5 participants and so on)'')
   \<in> set catalog"
  by (simp add: catalog_def)

lemma catalog_no_such_stat: "''no_such_stat'' \<notin> fst ` set catalog"
  by (simp add: catalog_def)


lemma collect_output_eq:
  "collect_output lib c now =
     concat (map (\<lambda>sset. if now - lastUpdated sset \<le> Retention c
                          then set_output lib c sset else []) (statsSets c))"
  by (simp add: collect_output_def Collect_output)

lemma emitted_unmatched:
  "name m \<noteq> NamePrefix c @ Name stat \<Longrightarrow> emitted lib c sset stat m = []"
  by (simp add: emitted_def collect_metric_def)

lemma emitted_scalar:
  "name m = NamePrefix c @ Name stat \<Longrightarrow> \<not> histogram_like (Name stat) \<Longrightarrow>
   emitted lib c sset stat m =
     (case ParseFloat lib (Value stat) of
        None \<Rightarrow> []
      | Some v \<Rightarrow>
          (case prometheus_NewConstMetric lib (desc m) (metricType m) v [jvbIdentifier sset] of
             None \<Rightarrow> []
           | Some cm \<Rightarrow> [cm]))"
  by (simp add: emitted_def collect_metric_def histogram_like_def split: option.split)

lemma emitted_histogram:
  "name m = NamePrefix c @ Name stat \<Longrightarrow> histogram_like (Name stat) \<Longrightarrow>
   bucketsHelper (Value stat) = Inr (buckets, total0) \<Longrightarrow>
   emitted lib c sset stat m =
     (case prometheus_NewConstHistogram lib (desc m) total0 (float64_of_uint64 lib total0)
             buckets [jvbIdentifier sset] of
        None \<Rightarrow> []
      | Some hm \<Rightarrow> [hm])"
  by (simp add: emitted_def collect_metric_def histogram_like_def split: option.split)

lemma emitted_frame:
  assumes "NamePrefix c' = NamePrefix c" and "jvbIdentifier sset' = jvbIdentifier sset"
  shows "emitted lib c' sset' stat m = emitted lib c sset stat m"
  unfolding emitted_def collect_metric_def assms by (rule refl)

lemma stat_output_frame:
  assumes "NamePrefix c' = NamePrefix c" and "metrics c' = metrics c"
    and "jvbIdentifier sset' = jvbIdentifier sset"
  shows "stat_output lib c' sset' stat = stat_output lib c sset stat"
proof -
  have "emitted lib c' sset' stat = emitted lib c sset stat"
    using assms by (intro ext emitted_frame)
  then show ?thesis using assms by (simp add: stat_output_def)
qed

lemma set_output_frame:
  assumes "NamePrefix c' = NamePrefix c" and "metrics c' = metrics c"
    and "jvbIdentifier sset' = jvbIdentifier sset" and "stats sset' = stats sset"
  shows "set_output lib c' sset' = set_output lib c sset"
proof -
  have "stat_output lib c' sset' = stat_output lib c sset"
    using assms by (intro ext stat_output_frame)
  then show ?thesis using assms by (simp add: set_output_def)
qed

lemma emitted_member:
  assumes "x \<in> set (emitted lib c sset stat m)"
  shows "name m = NamePrefix c @ Name stat \<and> m_desc x = desc m
     \<and> m_labelValues x = [jvbIdentifier sset] \<and> \<not> desc_err lib (desc m)
     \<and> length (variableLabels (desc m)) = 1
     \<and> (if histogram_like (Name stat)
        then \<exists>buckets total0. bucketsHelper (Value stat) = Inr (buckets, total0)
               \<and> x = constHistogram (desc m) total0 (float64_of_uint64 lib total0) buckets
                       [jvbIdentifier sset]
        else \<exists>v. ParseFloat lib (Value stat) = Some v
               \<and> x = constMetric (desc m) (metricType m) v [jvbIdentifier sset])"
proof -
  have n: "name m = NamePrefix c @ Name stat"
  proof (rule ccontr)
    assume "name m \<noteq> NamePrefix c @ Name stat"
    then have "emitted lib c sset stat m = []" by (rule emitted_unmatched)
    with assms show False by simp
  qed
  obtain buckets total0 where b: "bucketsHelper (Value stat) = Inr (buckets, total0)"
    using bucketsHelper_closed_form by blast
  show ?thesis
  proof (cases "histogram_like (Name stat)")
    case True
    with assms n b show ?thesis
      by (auto simp add: emitted_histogram [OF n True b] prometheus_NewConstHistogram_def
            validateLabelValues_def split: if_splits)
  next
    case False
    with assms n show ?thesis
      by (auto simp add: emitted_scalar [OF n False] prometheus_NewConstMetric_def
            validateLabelValues_def split: if_splits option.splits)
  qed
qed

lemma collect_output_member:
  assumes "x \<in> set (collect_output lib c now)"
  shows "\<exists>sset \<in> set (statsSets c). now - lastUpdated sset \<le> Retention c
           \<and> (\<exists>stat \<in> set (Stats (stats sset)). \<exists>m \<in> set (metrics c).
                 x \<in> set (emitted lib c sset stat m))"
  using assms
  by (auto simp add: collect_output_eq set_output_def stat_output_def split: if_splits)

lemma concat_map_Nil: "(\<And>x. x \<in> set xs \<Longrightarrow> f x = []) \<Longrightarrow> concat (map f xs) = []"
  by (induction xs) simp_all

lemma concat_map_unique:
  "distinct (map fst xs) \<Longrightarrow> (k, v) \<in> set xs \<Longrightarrow>
   (\<And>k' v'. (k', v') \<in> set xs \<Longrightarrow> k' \<noteq> k \<Longrightarrow> f (k', v') = []) \<Longrightarrow>
   concat (map f xs) = f (k, v)"
proof (induction xs)
  case Nil
  then show ?case by simp
next
  case (Cons x xs)
  show ?case
  proof (cases "x = (k, v)")
    case True
    have "concat (map f xs) = []"
    proof (rule concat_map_Nil)
      fix y assume y: "y \<in> set xs"
      obtain k' v' where kv: "y = (k', v')" by (cases y)
      with y Cons.prems(1) True have "k' \<noteq> k" by force
      with y kv Cons.prems(3) show "f y = []" by simp
    qed
    with True show ?thesis by simp
  next
    case False
    with Cons.prems have mem: "(k, v) \<in> set xs" by simp
    obtain k' v' where kv: "x = (k', v')" by (cases x)
    with mem Cons.prems(1) have "k' \<noteq> k" by force
    with kv Cons.prems(3) have "f x = []" by simp
    moreover have "concat (map f xs) = f (k, v)"
      using Cons.IH mem Cons.prems by simp
    ultimately show ?thesis by simp
  qed
qed

lemma stat_output_unmatched:
  "(\<And>m. m \<in> set (metrics c) \<Longrightarrow> name m \<noteq> NamePrefix c @ Name stat) \<Longrightarrow>
   stat_output lib c sset stat = []"
  unfolding stat_output_def by (rule concat_map_Nil) (simp add: emitted_unmatched)

lemma stat_output_catalog:
  assumes m: "metrics c = metrics (NewJvbCollector namespace subsystem retention)"
    and p: "NamePrefix c = NamePrefix (NewJvbCollector namespace subsystem retention)"
    and e: "(Name stat, t, h) \<in> set catalog"
  shows "stat_output lib c sset stat =
           emitted lib c sset stat
             (newMetric (NamePrefix c @ Name stat) t h [''jvb_instance''] [(''app'', ''jitsi'')])"
proof -
  let ?f = "\<lambda>(n, t, h). emitted lib c sset stat
              (newMetric (NamePrefix c @ n) t h [''jvb_instance''] [(''app'', ''jitsi'')])"
  have "stat_output lib c sset stat = concat (map ?f catalog)"
    by (simp add: stat_output_def m NewJvbCollector_fields(4) p [symmetric] comp_def
          case_prod_unfold)
  also have "\<dots> = ?f (Name stat, t, h)"
  proof (rule concat_map_unique [OF catalog_names_distinct e])
    fix k' v' assume "k' \<noteq> Name stat"
    then show "?f (k', v') = []"
      by (cases v') (simp add: emitted_unmatched newMetric_def)
  qed
  finally show ?thesis by simp
qed

lemma stat_output_not_in_catalog:
  assumes m: "metrics c = metrics (NewJvbCollector namespace subsystem retention)"
    and p: "NamePrefix c = NamePrefix (NewJvbCollector namespace subsystem retention)"
    and e: "Name stat \<notin> fst ` set catalog"
  shows "stat_output lib c sset stat = []"
proof (rule stat_output_unmatched)
  fix x assume "x \<in> set (metrics c)"
  then obtain n t h where "(n, t, h) \<in> set catalog"
    and "x = newMetric (NamePrefix c @ n) t h [''jvb_instance''] [(''app'', ''jitsi'')]"
    by (auto simp add: m NewJvbCollector_fields(4) p [symmetric])
  with e show "name x \<noteq> NamePrefix c @ Name stat"
    by (force simp add: newMetric_def)
qed

lemma cutoff_not_le_one: "\<not> (1844674407370955162 :: uint64) \<le> 1"
  by (simp add: word_le_nat_alt)

lemmas parse_defs =
  parsed_counts_def strings_Trim_def strings_TrimLeft_def strings_TrimRight_def
  strings_Split_def strconv_ParseUint_def is_digit_def digit_val_def cutoff_def maxUint64_def
  cutoff_not_le_one

section \<open>The example run, evaluated\<close>

lemma example_bucketsHelper:
  "bucketsHelper ''[2,3,5,1]'' = Inr ([0 \<mapsto> 2, 1 \<mapsto> 5, 2 \<mapsto> 10], 11)"
  by (simp add: bucketsHelper_closed_form parse_defs)

lemma example_collector_fields:
  "NamePrefix example_collector = []"
  "Retention example_collector = 30000000000"
  "statsSets example_collector = [example_set]"
  "metrics example_collector = metrics (NewJvbCollector [] [] 30000000000)"
  by (simp_all add: example_collector_def NewJvbCollector_fields)

lemma example_Update:
  "JvbCollector_Update (NewJvbCollector [] [] 30000000000) ''jvb-1'' (Some example_stats)
     1000000000000 = Inr example_collector"
  by (simp add: JvbCollector_Update_def NewJvbCollector_fields example_collector_def
        example_set_def)

lemma example_participants:
  "stat_output example_lib example_collector example_set
     \<lparr>Name = ''participants'', Value = ''5''\<rparr> = [example_gauge]"
proof -
  have "stat_output example_lib example_collector example_set
          \<lparr>Name = ''participants'', Value = ''5''\<rparr> =
        emitted example_lib example_collector example_set \<lparr>Name = ''participants'', Value = ''5''\<rparr>
          (newMetric (NamePrefix example_collector @ ''participants'') GaugeValue
             ''The current number of participants.'' [''jvb_instance''] [(''app'', ''jitsi'')])"
    using stat_output_catalog [where c = example_collector and namespace = "[]"
        and subsystem = "[]" and retention = 30000000000 and lib = example_lib
        and sset = example_set and stat = "\<lparr>Name = ''participants'', Value = ''5''\<rparr>" and t = GaugeValue
        and h = "''The current number of participants.''"]
    by (simp add: example_collector_fields NewJvbCollector_fields catalog_participants)
  also have "\<dots> = [example_gauge]"
    by (subst emitted_scalar)
       (simp_all add: example_collector_fields newMetric_def histogram_like_def
          prometheus_NewConstMetric_def validateLabelValues_def prometheus_NewDesc_def
          example_lib_def example_set_def example_gauge_def)
  finally show ?thesis .
qed

lemma example_no_such_stat:
  "stat_output example_lib example_collector example_set
     \<lparr>Name = ''no_such_stat'', Value = ''7''\<rparr> = []"
  using stat_output_not_in_catalog [where c = example_collector and namespace = "[]"
      and subsystem = "[]" and retention = 30000000000 and lib = example_lib
      and sset = example_set and stat = "\<lparr>Name = ''no_such_stat'', Value = ''7''\<rparr>"]
  by (simp add: example_collector_fields NewJvbCollector_fields catalog_no_such_stat)

lemma example_threads:
  "stat_output example_lib example_collector example_set
     \<lparr>Name = ''threads'', Value = ''not-a-number''\<rparr> = []"
proof -
  have "stat_output example_lib example_collector example_set
          \<lparr>Name = ''threads'', Value = ''not-a-number''\<rparr> =
        emitted example_lib example_collector example_set
          \<lparr>Name = ''threads'', Value = ''not-a-number''\<rparr>
          (newMetric (NamePrefix example_collector @ ''threads'') GaugeValue
             ''The current number of threads.'' [''jvb_instance''] [(''app'', ''jitsi'')])"
    using stat_output_catalog [where c = example_collector and namespace = "[]"
        and subsystem = "[]" and retention = 30000000000 and lib = example_lib
        and sset = example_set and stat = "\<lparr>Name = ''threads'', Value = ''not-a-number''\<rparr>" and t = GaugeValue
        and h = "''The current number of threads.''"]
    by (simp add: example_collector_fields NewJvbCollector_fields catalog_threads)
  also have "\<dots> = []"
    by (subst emitted_scalar)
       (simp_all add: example_collector_fields newMetric_def histogram_like_def example_lib_def)
  finally show ?thesis .
qed

lemma example_conference_sizes:
  "stat_output example_lib example_collector example_set
     \<lparr>Name = ''conference_sizes'', Value = ''[2,3,5,1]''\<rparr> = [example_histogram]"
proof -
  have "stat_output example_lib example_collector example_set
          \<lparr>Name = ''conference_sizes'', Value = ''[2,3,5,1]''\<rparr> =
        emitted example_lib example_collector example_set
          \<lparr>Name = ''conference_sizes'', Value = ''[2,3,5,1]''\<rparr>
          (newMetric (NamePrefix example_collector @ ''conference_sizes'') UntypedValue
             ''histogram of conference sizes (ie. how many conferences have 5 participants and so on)''
             [''jvb_instance''] [(''app'', ''jitsi'')])"
    using stat_output_catalog [where c = example_collector and namespace = "[]"
        and subsystem = "[]" and retention = 30000000000 and lib = example_lib
        and sset = example_set and stat = "\<lparr>Name = ''conference_sizes'', Value = ''[2,3,5,1]''\<rparr>" and t = UntypedValue
        and h = "''histogram of conference sizes (ie. how many conferences have 5 participants and so on)''"]
    by (simp add: example_collector_fields NewJvbCollector_fields catalog_conference_sizes)
  also have "\<dots> = [example_histogram]"
    by (subst emitted_histogram [where buckets = "[0 \<mapsto> 2, 1 \<mapsto> 5, 2 \<mapsto> 10]" and ?total0.0 = 11])
       (simp_all add: example_collector_fields newMetric_def histogram_like_def
          example_bucketsHelper
          prometheus_NewConstHistogram_def validateLabelValues_def prometheus_NewDesc_def
          example_lib_def example_set_def example_histogram_def)
  finally show ?thesis .
qed

lemma example_set_output:
  "set_output example_lib example_collector example_set = [example_gauge, example_histogram]"
  using example_participants example_no_such_stat example_threads example_conference_sizes
  by (simp add: set_output_def example_set_def example_stats_def)

section \<open>bucketsHelper never panics\<close>

text \<open>
  C10. The bucket transform is total. Splitting gives at least one field for every
  string, so the slice of parsed counts is never empty, the slice expression
  \<^verbatim>\<open>values[:len(values)-1]\<close> does not panic, no index of the two loops is out of range, and
  \<open>bucketsHelper\<close> returns a histogram and a sum for every input: for the empty string, for
  a string without brackets and for one without commas as for any other.
\<close>

theorem bucketsHelper_total:
  "strings_Split s CHR '','' \<noteq> []
   \<and> parsed_counts value \<noteq> []
   \<and> (\<exists>histogram sum0. bucketsHelper value = Inr (histogram, sum0))
   \<and> bucketsHelper '''' = Inr (Map.empty, 0)
   \<and> bucketsHelper ''1,2'' = Inr ([0 \<mapsto> 1], 3)
   \<and> bucketsHelper ''[7]'' = Inr (Map.empty, 7)"
proof -
  have "strings_Split s CHR '','' \<noteq> []"
    by (simp add: strings_Split_def split_from_nonempty)
  moreover have "\<exists>histogram sum0. bucketsHelper value = Inr (histogram, sum0)"
    by (simp add: bucketsHelper_closed_form)
  moreover have "bucketsHelper '''' = Inr (Map.empty, 0)"
    by (simp add: bucketsHelper_closed_form parse_defs)
  moreover have "bucketsHelper ''1,2'' = Inr ([0 \<mapsto> 1], 3)"
    by (simp add: bucketsHelper_closed_form parse_defs)
  moreover have "bucketsHelper ''[7]'' = Inr (Map.empty, 7)"
    by (simp add: bucketsHelper_closed_form parse_defs)
  ultimately show ?thesis
    using parsed_counts_nonempty by blast
qed

section \<open>The cumulative buckets\<close>

lemma uint64_wrap: "(18446744073709551616 :: uint64) = 0"
  by simp

lemma split_from_no_sep: "sep \<notin> set s \<Longrightarrow> split_from sep field s = [field @ s]"
  by (induction s arbitrary: field) auto

lemma parsed_counts_single:
  "CHR '','' \<notin> set (strings_Trim value ''[]'') \<Longrightarrow>
   parsed_counts value = [fst (strconv_ParseUint (strings_Trim value ''[]''))]"
  by (simp add: parsed_counts_def strings_Split_def split_from_no_sep)

lemma sum_list_map_unat_take:
  "i < length ws \<Longrightarrow>
   sum_list (map unat (take (Suc i) ws)) = (\<Sum>j\<le>i. unat (ws ! j))"
  for ws :: "uint64 list"
proof (induction i)
  case 0
  then show ?case by (cases ws) simp_all
next
  case (Suc i)
  then have "take (Suc (Suc i)) ws = take (Suc i) ws @ [ws ! Suc i]"
    by (simp add: take_Suc_conv_app_nth)
  with Suc show ?case by simp
qed

text \<open>
  C1, as the code has it. For every raw value, with \<open>N + 1\<close> parsed counts, the histogram
  has exactly the keys \<open>0, \<dots>, N - 1\<close> (the index as a real number), so the last count has
  no bucket, and the bucket at \<open>i\<close> is the sum of the counts at the indices \<open>0..i\<close> in
  \<^verbatim>\<open>uint64\<close> arithmetic, that is modulo \<open>2^64\<close>. The value \<^verbatim>\<open>[2,3,5,1]\<close> gives the
  buckets 2, 5, 10 and the total 11.
\<close>

theorem bucketsHelper_cumulative_buckets:
  "(\<exists>histogram sum0.
      bucketsHelper value = Inr (histogram, sum0)
      \<and> dom histogram = real ` {0..<length (parsed_counts value) - 1}
      \<and> (\<forall>i < length (parsed_counts value) - 1.
            histogram (real i) = Some (sum_list (take (Suc i) (parsed_counts value)))
            \<and> unat (sum_list (take (Suc i) (parsed_counts value)))
                = (\<Sum>j\<le>i. unat (parsed_counts value ! j)) mod 2 ^ 64))
   \<and> bucketsHelper ''[2,3,5,1]'' = Inr ([0 \<mapsto> 2, 1 \<mapsto> 5, 2 \<mapsto> 10], 11)"
proof (rule conjI)
  let ?cs = "parsed_counts value"
  let ?n = "length ?cs - 1"
  let ?vs = "map (\<lambda>k. sum_list (take (Suc k) ?cs)) [0..<?n]"
  let ?h = "fill_histogram Map.empty 0 ?vs"
  show "\<exists>histogram sum0.
      bucketsHelper value = Inr (histogram, sum0)
      \<and> dom histogram = real ` {0..<?n}
      \<and> (\<forall>i < ?n.
            histogram (real i) = Some (sum_list (take (Suc i) ?cs))
            \<and> unat (sum_list (take (Suc i) ?cs)) = (\<Sum>j\<le>i. unat (?cs ! j)) mod 2 ^ 64)"
  proof (intro exI conjI allI impI)
    show "bucketsHelper value = Inr (?h, sum_list ?cs)"
      by (rule bucketsHelper_closed_form)
    show "dom ?h = real ` {0..<?n}"
      by (simp add: dom_fill_histogram)
  next
    fix i assume i: "i < ?n"
    show "?h (real i) = Some (sum_list (take (Suc i) ?cs))"
      using fill_histogram_at [of i ?vs Map.empty 0] i by simp
    from i have "i < length ?cs" by simp
    then show "unat (sum_list (take (Suc i) ?cs)) = (\<Sum>j\<le>i. unat (?cs ! j)) mod 2 ^ 64"
      by (simp add: unat_sum_list sum_list_map_unat_take)
  qed
next
  show "bucketsHelper ''[2,3,5,1]'' = Inr ([0 \<mapsto> 2, 1 \<mapsto> 5, 2 \<mapsto> 10], 11)"
    by (rule example_bucketsHelper)
qed

text \<open>The theorem at \<^verbatim>\<open>[2,3,5,1]\<close> and the index 1.\<close>

theorem bucketsHelper_cumulative_buckets_witness:
  "(1::nat) < length (parsed_counts ''[2,3,5,1]'') - 1
   \<and> (\<exists>histogram sum0. bucketsHelper ''[2,3,5,1]'' = Inr (histogram, sum0)
        \<and> histogram 1 = Some 5)
   \<and> unat (5 :: uint64) = (unat (2 :: uint64) + unat (3 :: uint64)) mod 2 ^ 64"
proof -
  have cs: "parsed_counts ''[2,3,5,1]'' = [2, 3, 5, 1]"
    by (simp add: parse_defs)
  have one: "(1::nat) < length (parsed_counts ''[2,3,5,1]'') - 1"
    by (simp add: cs)
  from bucketsHelper_cumulative_buckets [of "''[2,3,5,1]''", THEN conjunct1]
  obtain histogram sum0 where h: "bucketsHelper ''[2,3,5,1]'' = Inr (histogram, sum0)"
    and b: "\<forall>i < length (parsed_counts ''[2,3,5,1]'') - 1.
            histogram (real i) = Some (sum_list (take (Suc i) (parsed_counts ''[2,3,5,1]'')))
            \<and> unat (sum_list (take (Suc i) (parsed_counts ''[2,3,5,1]'')))
                = (\<Sum>j\<le>i. unat (parsed_counts ''[2,3,5,1]'' ! j)) mod 2 ^ 64"
    by (elim exE conjE) (rule that, assumption+)
  from b [rule_format, OF one]
  have "histogram (real (1::nat)) = Some (sum_list (take (Suc 1) (parsed_counts ''[2,3,5,1]'')))"
    by (rule conjunct1)
  then have "histogram 1 = Some 5"
    by (simp add: cs)
  with h have "\<exists>histogram sum0. bucketsHelper ''[2,3,5,1]'' = Inr (histogram, sum0)
        \<and> histogram 1 = Some 5"
    by (intro exI conjI)
  with one show ?thesis by simp
qed

text \<open>
  The claim without the wrap-around fails: for \<^verbatim>\<open>[18446744073709551615,1,0]\<close> the counts
  at the indices 0 and 1 add up to \<open>2^64\<close>, and the bucket at 1 is 0.
\<close>

theorem bucketsHelper_cumulative_wraps:
  "parsed_counts ''[18446744073709551615,1,0]'' = [18446744073709551615, 1, 0]
   \<and> bucketsHelper ''[18446744073709551615,1,0]'' = Inr ([0 \<mapsto> 18446744073709551615, 1 \<mapsto> 0], 0)
   \<and> unat (parsed_counts ''[18446744073709551615,1,0]'' ! 0)
       + unat (parsed_counts ''[18446744073709551615,1,0]'' ! 1) = 18446744073709551616"
proof -
  have cs: "parsed_counts ''[18446744073709551615,1,0]'' = [18446744073709551615, 1, 0]"
    by (simp add: parse_defs)
  moreover have "bucketsHelper ''[18446744073709551615,1,0]''
      = Inr ([0 \<mapsto> 18446744073709551615, 1 \<mapsto> 0], 0)"
    by (simp add: bucketsHelper_closed_form cs uint64_wrap)
  ultimately show ?thesis by simp
qed

section \<open>Single fields and fields that do not parse\<close>

lemma bucketsHelper_single:
  assumes "CHR '','' \<notin> set (strings_Trim value ''[]'')"
  shows "bucketsHelper value = Inr (Map.empty, fst (strconv_ParseUint (strings_Trim value ''[]'')))"
  by (simp add: bucketsHelper_closed_form parsed_counts_single [OF assms])

lemma strconv_ParseUint_field_count:
  "strconv_ParseUint v =
     (field_count v,
      if 18446744073709551616 \<le> decimal_value (takeWhile is_digit v) then Some ErrRange
      else if v \<noteq> [] \<and> list_all is_digit v then None
      else Some ErrSyntax)"
  using strconv_ParseUint_decimal [of v] by (simp add: field_count_def maxUint64_def)

lemma parsed_counts_field_count:
  "parsed_counts value = map field_count (strings_Split (strings_Trim value ''[]'') CHR '','')"
  by (simp add: parsed_counts_def strconv_ParseUint_field_count)

lemma field_count_parsed:
  assumes "snd (strconv_ParseUint v) = None"
  shows "unat (field_count v) = decimal_value v"
proof -
  from assms have r: "\<not> 18446744073709551616 \<le> decimal_value (takeWhile is_digit v)"
    and d: "list_all is_digit v"
    by (simp_all add: strconv_ParseUint_field_count split: if_splits)
  from d have "takeWhile is_digit v = v"
    by (simp add: takeWhile_eq_all_conv list_all_iff)
  with r have "decimal_value v < 18446744073709551616" by simp
  then have "unat (of_nat (decimal_value v) :: uint64) = decimal_value v"
    by (rule unat_of_nat_uint64)
  with assms show ?thesis
    by (simp add: strconv_ParseUint_field_count field_count_def split: if_splits)
qed

text \<open>
  C7, as the code has it. The transform returns for every input, and what it returns is
  made of what each field contributes: the total is the sum of the contributions of all
  the fields of the value (the value without its brackets, split at the commas), and
  the bucket at \<open>i\<close> is the sum of the contributions of the fields \<open>0..i\<close>, in
  \<^verbatim>\<open>uint64\<close>. A field contributes the number it denotes when it is a non-empty string
  of decimal digits with a value of at most \<open>2^64 - 1\<close>; it contributes \<open>2^64 - 1\<close> when
  its leading digits denote more than that (the range error of \<^verbatim>\<open>ParseUint\<close>);
  otherwise it contributes 0 (the syntax error). When the value has no comma, the
  histogram is empty and the total is the contribution of its one field, 0 for empty
  brackets. The value \<^verbatim>\<open>[0]\<close> gives no bucket and the total 0.
\<close>

theorem bucketsHelper_lenient_parse:
  "(\<exists>histogram.
      bucketsHelper value =
        Inr (histogram,
             sum_list (map field_count (strings_Split (strings_Trim value ''[]'') CHR '','')))
      \<and> dom histogram =
          real ` {0..<length (strings_Split (strings_Trim value ''[]'') CHR '','') - 1}
      \<and> (\<forall>i < length (strings_Split (strings_Trim value ''[]'') CHR '','') - 1.
            histogram (real i) =
              Some (sum_list (map field_count
                      (take (Suc i) (strings_Split (strings_Trim value ''[]'') CHR '',''))))))
   \<and> (CHR '','' \<notin> set (strings_Trim value ''[]'') \<longrightarrow>
        bucketsHelper value = Inr (Map.empty, field_count (strings_Trim value ''[]'')))
   \<and> (strings_Trim value ''[]'' = [] \<longrightarrow> bucketsHelper value = Inr (Map.empty, 0))
   \<and> strconv_ParseUint v =
        (if 18446744073709551616 \<le> decimal_value (takeWhile is_digit v)
           then (18446744073709551615, Some ErrRange)
         else if v \<noteq> [] \<and> list_all is_digit v then (of_nat (decimal_value v), None)
         else (0, Some ErrSyntax))
   \<and> fst (strconv_ParseUint v) = field_count v
   \<and> (snd (strconv_ParseUint v) = Some ErrSyntax \<longrightarrow> field_count v = 0)
   \<and> (snd (strconv_ParseUint v) = Some ErrRange \<longrightarrow> field_count v = 18446744073709551615)
   \<and> (snd (strconv_ParseUint v) = None \<longrightarrow> unat (field_count v) = decimal_value v)
   \<and> bucketsHelper ''[0]'' = Inr (Map.empty, 0)
   \<and> bucketsHelper ''[]'' = Inr (Map.empty, 0)"
proof (intro conjI impI)
  let ?fs = "strings_Split (strings_Trim value ''[]'') CHR '',''"
  let ?n = "length ?fs - 1"
  let ?vs = "map (\<lambda>k. sum_list (map field_count (take (Suc k) ?fs))) [0..<?n]"
  let ?h = "fill_histogram Map.empty 0 ?vs"
  have cf: "bucketsHelper value = Inr (?h, sum_list (map field_count ?fs))"
    using bucketsHelper_closed_form [of "value"]
    by (simp only: parsed_counts_field_count take_map length_map)
  show "\<exists>histogram.
      bucketsHelper value = Inr (histogram, sum_list (map field_count ?fs))
      \<and> dom histogram = real ` {0..<?n}
      \<and> (\<forall>i < ?n. histogram (real i) =
              Some (sum_list (map field_count (take (Suc i) ?fs))))"
  proof (intro exI conjI allI impI)
    show "bucketsHelper value = Inr (?h, sum_list (map field_count ?fs))"
      by (rule cf)
    show "dom ?h = real ` {0..<?n}"
      by (simp add: dom_fill_histogram)
    fix i assume "i < ?n"
    then show "?h (real i) = Some (sum_list (map field_count (take (Suc i) ?fs)))"
      using fill_histogram_at [of i ?vs Map.empty 0] by simp
  qed
  show "bucketsHelper value = Inr (Map.empty, field_count (strings_Trim value ''[]''))"
    if "CHR '','' \<notin> set (strings_Trim value ''[]'')"
    using bucketsHelper_single [OF that] by (simp add: strconv_ParseUint_field_count)
  show "bucketsHelper value = Inr (Map.empty, 0)" if "strings_Trim value ''[]'' = []"
    using bucketsHelper_single [of "value"] that by (simp add: strconv_ParseUint_def)
  show "strconv_ParseUint v =
        (if 18446744073709551616 \<le> decimal_value (takeWhile is_digit v)
           then (18446744073709551615, Some ErrRange)
         else if v \<noteq> [] \<and> list_all is_digit v then (of_nat (decimal_value v), None)
         else (0, Some ErrSyntax))"
    using strconv_ParseUint_decimal [of v] by (simp add: maxUint64_def)
  show "fst (strconv_ParseUint v) = field_count v"
    by (simp add: strconv_ParseUint_field_count)
  show "field_count v = 0" if "snd (strconv_ParseUint v) = Some ErrSyntax"
    using that by (auto simp add: strconv_ParseUint_field_count field_count_def split: if_splits)
  show "field_count v = 18446744073709551615" if "snd (strconv_ParseUint v) = Some ErrRange"
    using that by (auto simp add: strconv_ParseUint_field_count field_count_def split: if_splits)
  show "unat (field_count v) = decimal_value v" if "snd (strconv_ParseUint v) = None"
    using that by (rule field_count_parsed)
  show "bucketsHelper ''[0]'' = Inr (Map.empty, 0)"
    by (simp add: bucketsHelper_closed_form parse_defs)
  show "bucketsHelper ''[]'' = Inr (Map.empty, 0)"
    by (simp add: bucketsHelper_closed_form parse_defs)
qed

text \<open>
  The theorem at \<^verbatim>\<open>[1,x,3]\<close>, whose middle field is not a number, at \<^verbatim>\<open>[7]\<close>, at empty
  brackets, and at the fields \<^verbatim>\<open>12x\<close>, \<^verbatim>\<open>99999999999999999999\<close> and \<^verbatim>\<open>42\<close>.
\<close>

theorem bucketsHelper_lenient_parse_witness:
  "strings_Split (strings_Trim ''[1,x,3]'' ''[]'') CHR '','' = [''1'', ''x'', ''3'']
   \<and> field_count ''1'' = 1 \<and> field_count ''x'' = 0 \<and> field_count ''3'' = 3
   \<and> (\<exists>histogram. bucketsHelper ''[1,x,3]'' = Inr (histogram, 4)
          \<and> histogram 0 = Some 1 \<and> histogram 1 = Some 1)
   \<and> CHR '','' \<notin> set (strings_Trim ''[7]'' ''[]'')
   \<and> bucketsHelper ''[7]'' = Inr (Map.empty, 7)
   \<and> strings_Trim ''[]'' ''[]'' = []
   \<and> bucketsHelper ''[]'' = Inr (Map.empty, 0)
   \<and> snd (strconv_ParseUint ''12x'') = Some ErrSyntax
   \<and> field_count ''12x'' = 0
   \<and> snd (strconv_ParseUint ''99999999999999999999'') = Some ErrRange
   \<and> field_count ''99999999999999999999'' = 18446744073709551615
   \<and> snd (strconv_ParseUint ''42'') = None
   \<and> unat (field_count ''42'') = 42"
proof -
  have fs: "strings_Split (strings_Trim ''[1,x,3]'' ''[]'') CHR '','' = [''1'', ''x'', ''3'']"
    by (simp add: parse_defs)
  have f1: "field_count ''1'' = 1" and fx: "field_count ''x'' = 0" and f3: "field_count ''3'' = 3"
    by (simp_all add: field_count_def decimal_value_def is_digit_def)
  have t7: "strings_Trim ''[7]'' ''[]'' = ''7''"
    by (simp add: parse_defs)
  then have c7: "CHR '','' \<notin> set (strings_Trim ''[7]'' ''[]'')"
    by simp
  have f7: "field_count ''7'' = 7"
    by (simp add: field_count_def decimal_value_def is_digit_def)
  have t0: "strings_Trim ''[]'' ''[]'' = []"
    by (simp add: parse_defs)
  have e1: "snd (strconv_ParseUint ''12x'') = Some ErrSyntax"
    by (simp add: parse_defs)
  have e2: "snd (strconv_ParseUint ''99999999999999999999'') = Some ErrRange"
    by (simp add: parse_defs)
  have e3: "snd (strconv_ParseUint ''42'') = None"
    by (simp add: parse_defs)
  have d42: "decimal_value ''42'' = 42"
    by (simp add: decimal_value_def)
  note a = bucketsHelper_lenient_parse [of "''[1,x,3]''" "''12x''"]
  note b = bucketsHelper_lenient_parse [of "''[7]''" "''99999999999999999999''"]
  note c = bucketsHelper_lenient_parse [of "''[]''" "''42''"]
  from a [THEN conjunct1] obtain histogram where
    h: "bucketsHelper ''[1,x,3]'' =
          Inr (histogram,
               sum_list (map field_count (strings_Split (strings_Trim ''[1,x,3]'' ''[]'') CHR '','')))"
    and hb: "\<forall>i < length (strings_Split (strings_Trim ''[1,x,3]'' ''[]'') CHR '','') - 1.
            histogram (real i) =
              Some (sum_list (map field_count
                      (take (Suc i) (strings_Split (strings_Trim ''[1,x,3]'' ''[]'') CHR '',''))))"
    by (elim exE conjE) (rule that, assumption+)
  have i0: "(0::nat) < length (strings_Split (strings_Trim ''[1,x,3]'' ''[]'') CHR '','') - 1"
    and i1: "(1::nat) < length (strings_Split (strings_Trim ''[1,x,3]'' ''[]'') CHR '','') - 1"
    by (simp_all add: fs)
  from h have h4: "bucketsHelper ''[1,x,3]'' = Inr (histogram, 4)"
    unfolding fs by (simp add: f1 fx f3)
  from hb [rule_format, OF i0] have h0: "histogram 0 = Some 1"
    unfolding fs by (simp add: f1)
  from hb [rule_format, OF i1] have h1: "histogram 1 = Some 1"
    unfolding fs by (simp add: f1 fx)
  from h4 h0 h1 have ex: "\<exists>histogram. bucketsHelper ''[1,x,3]'' = Inr (histogram, 4)
          \<and> histogram 0 = Some 1 \<and> histogram 1 = Some 1"
    by (intro exI conjI)
  have r7: "bucketsHelper ''[7]'' = Inr (Map.empty, 7)"
    using b [THEN conjunct2, THEN conjunct1, THEN mp, OF c7] unfolding t7 f7 .
  have r0: "bucketsHelper ''[]'' = Inr (Map.empty, 0)"
    by (rule c [THEN conjunct2, THEN conjunct2, THEN conjunct1, THEN mp, OF t0])
  have s1: "field_count ''12x'' = 0"
    by (rule a [THEN conjunct2, THEN conjunct2, THEN conjunct2, THEN conjunct2, THEN conjunct2,
          THEN conjunct1, THEN mp, OF e1])
  have s2: "field_count ''99999999999999999999'' = 18446744073709551615"
    by (rule b [THEN conjunct2, THEN conjunct2, THEN conjunct2, THEN conjunct2, THEN conjunct2,
          THEN conjunct2, THEN conjunct1, THEN mp, OF e2])
  have "unat (field_count ''42'') = decimal_value ''42''"
    by (rule c [THEN conjunct2, THEN conjunct2, THEN conjunct2, THEN conjunct2, THEN conjunct2,
          THEN conjunct2, THEN conjunct2, THEN conjunct1, THEN mp, OF e3])
  then have s3: "unat (field_count ''42'') = 42"
    by (simp only: d42)
  from fs f1 fx f3 ex c7 r7 t0 r0 e1 s1 e2 s2 e3 s3 show ?thesis
    by (intro conjI)
qed

text \<open>
  A field that fails to parse does not always contribute 0: \<^verbatim>\<open>99999999999999999999\<close>
  is out of range, \<^verbatim>\<open>ParseUint\<close> returns \<open>2^64 - 1\<close> beside the error, and that is what
  the field contributes, alone or among other fields.
\<close>

theorem bucketsHelper_range_error_field:
  "strconv_ParseUint ''99999999999999999999'' = (18446744073709551615, Some ErrRange)
   \<and> parsed_counts ''[99999999999999999999]'' = [18446744073709551615]
   \<and> bucketsHelper ''[99999999999999999999]'' = Inr (Map.empty, 18446744073709551615)
   \<and> bucketsHelper ''[0,99999999999999999999,0]'' =
       Inr ([0 \<mapsto> 0, 1 \<mapsto> 18446744073709551615], 18446744073709551615)"
proof -
  have cs: "parsed_counts ''[99999999999999999999]'' = [18446744073709551615]"
    by (simp add: parse_defs)
  have cs2: "parsed_counts ''[0,99999999999999999999,0]'' = [0, 18446744073709551615, 0]"
    by (simp add: parse_defs)
  have "strconv_ParseUint ''99999999999999999999'' = (18446744073709551615, Some ErrRange)"
    by (simp add: parse_defs)
  moreover have "bucketsHelper ''[99999999999999999999]'' = Inr (Map.empty, 18446744073709551615)"
    by (simp add: bucketsHelper_closed_form cs)
  moreover have "bucketsHelper ''[0,99999999999999999999,0]'' =
      Inr ([0 \<mapsto> 0, 1 \<mapsto> 18446744073709551615], 18446744073709551615)"
    by (simp add: bucketsHelper_closed_form cs2)
  ultimately show ?thesis using cs by (intro conjI)
qed

section \<open>The total of a histogram\<close>

lemma example_collect_output:
  "now - 1000000000000 \<le> 30000000000 \<Longrightarrow>
   collect_output example_lib example_collector now = [example_gauge, example_histogram]"
  by (simp add: collect_output_eq example_collector_fields example_set_output)
     (simp add: example_set_def)

lemma example_collect_output_stale:
  "\<not> now - 1000000000000 \<le> 30000000000 \<Longrightarrow>
   collect_output example_lib example_collector now = []"
  by (simp add: collect_output_eq example_collector_fields)
     (simp add: example_set_def)

lemma collect_metric_histogram:
  assumes "name m = NamePrefix c @ Name stat" and "histogram_like (Name stat)"
    and "\<not> desc_err lib (desc m)"
    and "validateLabelValues lib [jvbIdentifier sset] (length (variableLabels (desc m)))"
    and "bucketsHelper (Value stat) = Inr (buckets, total0)"
  shows "collect_metric lib c sset stat m =
           Inr [constHistogram (desc m) total0 (float64_of_uint64 lib total0) buckets
                  [jvbIdentifier sset]]"
  using assms emitted_histogram [OF assms(1,2,5), of lib sset]
  by (simp add: collect_metric_emitted prometheus_NewConstHistogram_def)

text \<open>
  C6, as the code has it. The total that \<open>bucketsHelper\<close> returns is the sum of all the
  parsed counts, the last one included, in \<^verbatim>\<open>uint64\<close> arithmetic, that is modulo
  \<open>2^64\<close>. For a stat with one of the three histogram names whose metric is found and
  accepted, the loop body sends one histogram with this total as its count and the
  conversion of the same total to \<^verbatim>\<open>float64\<close> as its sum; and every histogram that
  \<^verbatim>\<open>Collect\<close> sends has the total of a stored stat as its count and the conversion of its
  count as its sum.
\<close>

theorem histogram_total_observations:
  "(\<exists>histogram. bucketsHelper value = Inr (histogram, sum_list (parsed_counts value)))
   \<and> unat (sum_list (parsed_counts value)) = sum_list (map unat (parsed_counts value)) mod 2 ^ 64
   \<and> (name m = NamePrefix c @ Name stat \<and> histogram_like (Name stat)
        \<and> \<not> desc_err lib (desc m)
        \<and> validateLabelValues lib [jvbIdentifier sset] (length (variableLabels (desc m)))
      \<longrightarrow> (\<exists>histogram. collect_metric lib c sset stat m =
             Inr [constHistogram (desc m) (sum_list (parsed_counts (Value stat)))
                    (float64_of_uint64 lib (sum_list (parsed_counts (Value stat))))
                    histogram [jvbIdentifier sset]]))
   \<and> (constHistogram d count0 sum0 buckets labelValues \<in> set (collect_output lib c now)
      \<longrightarrow> (\<exists>sset \<in> set (statsSets c). \<exists>stat \<in> set (Stats (stats sset)).
             histogram_like (Name stat)
             \<and> count0 = sum_list (parsed_counts (Value stat))
             \<and> sum0 = float64_of_uint64 lib count0))"
proof (intro conjI impI)
  show "\<exists>histogram. bucketsHelper value = Inr (histogram, sum_list (parsed_counts value))"
    by (simp add: bucketsHelper_closed_form)
  show "unat (sum_list (parsed_counts value)) = sum_list (map unat (parsed_counts value)) mod 2 ^ 64"
    by (rule unat_sum_list)
next
  assume a: "name m = NamePrefix c @ Name stat \<and> histogram_like (Name stat)
        \<and> \<not> desc_err lib (desc m)
        \<and> validateLabelValues lib [jvbIdentifier sset] (length (variableLabels (desc m)))"
  obtain histogram where "bucketsHelper (Value stat) = Inr (histogram, sum_list (parsed_counts (Value stat)))"
    by (simp add: bucketsHelper_closed_form)
  with a have "collect_metric lib c sset stat m =
             Inr [constHistogram (desc m) (sum_list (parsed_counts (Value stat)))
                    (float64_of_uint64 lib (sum_list (parsed_counts (Value stat))))
                    histogram [jvbIdentifier sset]]"
    by (intro collect_metric_histogram) simp_all
  then show "\<exists>histogram. collect_metric lib c sset stat m =
             Inr [constHistogram (desc m) (sum_list (parsed_counts (Value stat)))
                    (float64_of_uint64 lib (sum_list (parsed_counts (Value stat))))
                    histogram [jvbIdentifier sset]]"
    by (rule exI [where x = histogram])
next
  let ?x = "constHistogram d count0 sum0 buckets labelValues :: 'a Metric"
  assume "?x \<in> set (collect_output lib c now)"
  then obtain sset stat mm where s: "sset \<in> set (statsSets c)"
    and st: "stat \<in> set (Stats (stats sset))"
    and x: "?x \<in> set (emitted lib c sset stat mm)"
    using collect_output_member [of ?x lib c now] by blast
  from emitted_member [OF x] have
    h: "if histogram_like (Name stat)
        then \<exists>buckets' total0. bucketsHelper (Value stat) = Inr (buckets', total0)
               \<and> ?x = constHistogram (desc mm) total0 (float64_of_uint64 lib total0) buckets'
                       [jvbIdentifier sset]
        else \<exists>v. ParseFloat lib (Value stat) = Some v
               \<and> ?x = constMetric (desc mm) (metricType mm) v [jvbIdentifier sset]"
    by (elim conjE)
  then have hl: "histogram_like (Name stat)"
    by (cases "histogram_like (Name stat)") auto
  with h obtain buckets' total0 where b: "bucketsHelper (Value stat) = Inr (buckets', total0)"
    and e: "?x = constHistogram (desc mm) total0 (float64_of_uint64 lib total0) buckets'
                       [jvbIdentifier sset]"
    by auto
  from b have "total0 = sum_list (parsed_counts (Value stat))"
    by (simp add: bucketsHelper_closed_form)
  with e hl have "histogram_like (Name stat)
             \<and> count0 = sum_list (parsed_counts (Value stat))
             \<and> sum0 = float64_of_uint64 lib count0"
    by simp
  with s st show "\<exists>sset \<in> set (statsSets c). \<exists>stat \<in> set (Stats (stats sset)).
             histogram_like (Name stat)
             \<and> count0 = sum_list (parsed_counts (Value stat))
             \<and> sum0 = float64_of_uint64 lib count0"
    by blast
qed

text \<open>The theorem at the histogram of the example run, collected 10 s after the update.\<close>

theorem histogram_total_observations_witness:
  "constHistogram
     (prometheus_NewDesc ''conference_sizes''
        ''histogram of conference sizes (ie. how many conferences have 5 participants and so on)''
        [''jvb_instance''] [(''app'', ''jitsi'')])
     11 11 [0 \<mapsto> 2, 1 \<mapsto> 5, 2 \<mapsto> 10] [''jvb-1'']
     \<in> set (collect_output example_lib example_collector 1010000000000)
   \<and> (\<exists>sset \<in> set (statsSets example_collector). \<exists>stat \<in> set (Stats (stats sset)).
          histogram_like (Name stat)
          \<and> (11 :: uint64) = sum_list (parsed_counts (Value stat))
          \<and> (11 :: real) = float64_of_uint64 example_lib 11)"
proof -
  let ?d = "prometheus_NewDesc ''conference_sizes''
        ''histogram of conference sizes (ie. how many conferences have 5 participants and so on)''
        [''jvb_instance''] [(''app'', ''jitsi'')]"
  let ?b = "[0 \<mapsto> 2, 1 \<mapsto> 5, 2 \<mapsto> (10 :: uint64)] :: real \<rightharpoonup> uint64"
  have mem: "constHistogram ?d 11 11 ?b [''jvb-1'']
      \<in> set (collect_output example_lib example_collector 1010000000000)"
    by (simp add: example_collect_output) (simp add: example_histogram_def)
  note t = histogram_total_observations [where d = ?d and ?count0.0 = 11 and ?sum0.0 = "11 :: real"
      and buckets = ?b and labelValues = "[''jvb-1'']" and lib = example_lib
      and c = example_collector and now = 1010000000000]
  have ex: "\<exists>sset \<in> set (statsSets example_collector). \<exists>stat \<in> set (Stats (stats sset)).
          histogram_like (Name stat)
          \<and> (11 :: uint64) = sum_list (parsed_counts (Value stat))
          \<and> (11 :: real) = float64_of_uint64 example_lib 11"
    by (rule t [THEN conjunct2, THEN conjunct2, THEN conjunct2, THEN mp, OF mem])
  show ?thesis by (rule conjI [OF mem ex])
qed

text \<open>
  The total is not always the sum of the counts: those of
  \<^verbatim>\<open>[18446744073709551615,1]\<close> add up to \<open>2^64\<close>, and the total is 0.
\<close>

theorem total_observations_wraps:
  "parsed_counts ''[18446744073709551615,1]'' = [18446744073709551615, 1]
   \<and> bucketsHelper ''[18446744073709551615,1]'' = Inr ([0 \<mapsto> 18446744073709551615], 0)
   \<and> sum_list (map unat (parsed_counts ''[18446744073709551615,1]'')) = 18446744073709551616"
proof -
  have cs: "parsed_counts ''[18446744073709551615,1]'' = [18446744073709551615, 1]"
    by (simp add: parse_defs)
  moreover have "bucketsHelper ''[18446744073709551615,1]''
      = Inr ([0 \<mapsto> 18446744073709551615], 0)"
    by (simp add: bucketsHelper_closed_form cs uint64_wrap)
  ultimately show ?thesis by simp
qed

section \<open>One stat among the others\<close>

lemma example_set_fields:
  "lastUpdated example_set = 1000000000000"
  "stats example_set = example_stats"
  "jvbIdentifier example_set = ''jvb-1''"
  by (simp_all add: example_set_def)

lemma example_Collect:
  "JvbCollector_Collect example_lib example_collector now =
     Inr (if now - 1000000000000 \<le> 30000000000 then [example_gauge, example_histogram] else [],
          example_collector)"
  by (simp add: Collect_output example_collector_fields example_set_output example_set_fields)

lemma set_output_statsSets_update:
  "set_output lib (c\<lparr>statsSets := ss\<rparr>) sset = set_output lib c sset"
  by (rule set_output_frame) simp_all

lemma collect_output_statsSets:
  "collect_output lib (c\<lparr>statsSets := ss\<rparr>) now =
     concat (map (\<lambda>sset. if now - lastUpdated sset \<le> Retention c
                          then set_output lib c sset else []) ss)"
  by (simp add: collect_output_eq set_output_statsSets_update cong: if_cong)

lemma set_output_drop_stat:
  assumes "stat_output lib c sset stat = []"
  shows "set_output lib c (sset\<lparr>stats := \<lparr>Stats = before @ stat # after\<rparr>\<rparr>) =
         set_output lib c (sset\<lparr>stats := \<lparr>Stats = before @ after\<rparr>\<rparr>)"
proof -
  have f: "stat_output lib c (sset\<lparr>stats := st\<rparr>) = stat_output lib c sset" for st
    by (intro ext stat_output_frame) simp_all
  show ?thesis using assms by (simp add: set_output_def f)
qed

lemma collect_output_drop_stat:
  assumes "stat_output lib c sset stat = []"
  shows "collect_output lib
           (c\<lparr>statsSets := before_sets @
                sset\<lparr>stats := \<lparr>Stats = before @ stat # after\<rparr>\<rparr> # after_sets\<rparr>) now =
         collect_output lib
           (c\<lparr>statsSets := before_sets @
                sset\<lparr>stats := \<lparr>Stats = before @ after\<rparr>\<rparr> # after_sets\<rparr>) now"
  by (simp add: collect_output_statsSets set_output_drop_stat [OF assms])

lemma stat_output_parse_failure:
  assumes "\<not> histogram_like (Name stat)" and "ParseFloat lib (Value stat) = None"
  shows "stat_output lib c sset stat = []"
  unfolding stat_output_def
proof (rule concat_map_Nil)
  fix m
  show "emitted lib c sset stat m = []"
  proof (cases "name m = NamePrefix c @ Name stat")
    case True
    then show ?thesis using assms by (simp add: emitted_scalar)
  next
    case False
    then show ?thesis by (rule emitted_unmatched)
  qed
qed

lemma emitted_construction_failure:
  assumes "desc_err lib (desc m)
     \<or> \<not> validateLabelValues lib [jvbIdentifier sset] (length (variableLabels (desc m)))"
  shows "emitted lib c sset stat m = []"
proof (cases "name m = NamePrefix c @ Name stat")
  case False
  then show ?thesis by (rule emitted_unmatched)
next
  case n: True
  show ?thesis
  proof (cases "histogram_like (Name stat)")
    case True
    have bh: "bucketsHelper (Value stat) =
            Inr (fill_histogram Map.empty 0
                   (map (\<lambda>k. sum_list (take (Suc k) (parsed_counts (Value stat))))
                      [0..<length (parsed_counts (Value stat)) - 1]),
                 sum_list (parsed_counts (Value stat)))"
      by (rule bucketsHelper_closed_form)
    show ?thesis
      using assms
      by (auto simp add: emitted_histogram [OF n True bh] prometheus_NewConstHistogram_def)
  next
    case False
    show ?thesis
      using assms
      by (auto simp add: emitted_scalar [OF n False] prometheus_NewConstMetric_def
            split: option.splits)
  qed
qed

lemma stat_output_construction_failure:
  assumes "\<And>m. m \<in> set (metrics c) \<Longrightarrow> name m = NamePrefix c @ Name stat \<Longrightarrow>
             desc_err lib (desc m)
             \<or> \<not> validateLabelValues lib [jvbIdentifier sset] (length (variableLabels (desc m)))"
  shows "stat_output lib c sset stat = []"
  unfolding stat_output_def
proof (rule concat_map_Nil)
  fix m assume m: "m \<in> set (metrics c)"
  show "emitted lib c sset stat m = []"
  proof (cases "name m = NamePrefix c @ Name stat")
    case True
    from assms [OF m True] show ?thesis by (rule emitted_construction_failure)
  next
    case False
    then show ?thesis by (rule emitted_unmatched)
  qed
qed

lemma NewJvbCollector_metric_names:
  assumes "m \<in> set (metrics (NewJvbCollector namespace subsystem retention))"
  shows "\<exists>n \<in> fst ` set catalog.
           name m = NamePrefix (NewJvbCollector namespace subsystem retention) @ n"
  using assms by (force simp add: NewJvbCollector_fields(4) newMetric_def)

lemma NewJvbCollector_variableLabels:
  assumes "m \<in> set (metrics (NewJvbCollector namespace subsystem retention))"
  shows "variableLabels (desc m) = [''jvb_instance'']"
  using assms
  by (auto simp add: NewJvbCollector_fields(4) newMetric_def prometheus_NewDesc_def)

section \<open>Retention\<close>

text \<open>
  C2. \<^verbatim>\<open>Collect\<close> sends, in the order of the cache, the metrics of exactly the stats sets
  with \<open>now - lastUpdated \<le> Retention\<close>: a stats set contributes its metrics when the
  inequality holds and nothing when it does not, and at \<open>now = lastUpdated + Retention\<close>
  it is still included.
\<close>

theorem Collect_retention:
  "JvbCollector_Collect lib c now =
     Inr (concat (map (set_output lib c)
            (filter (\<lambda>sset. now - lastUpdated sset \<le> Retention c) (statsSets c))), c)
   \<and> collect_set lib c now sset =
       Inr (if now - lastUpdated sset \<le> Retention c then set_output lib c sset else [])
   \<and> collect_set lib c (lastUpdated sset + Retention c) sset = Inr (set_output lib c sset)"
proof (intro conjI)
  show "JvbCollector_Collect lib c now =
     Inr (concat (map (set_output lib c)
            (filter (\<lambda>sset. now - lastUpdated sset \<le> Retention c) (statsSets c))), c)"
    by (simp only: Collect_output concat_map_if_filter)
  show "collect_set lib c now sset =
       Inr (if now - lastUpdated sset \<le> Retention c then set_output lib c sset else [])"
    by (rule collect_set_output)
  show "collect_set lib c (lastUpdated sset + Retention c) sset = Inr (set_output lib c sset)"
    by (simp add: collect_set_output)
qed

text \<open>The example run collected exactly 30 s after the update, and one nanosecond later.\<close>

theorem Collect_retention_witness:
  "JvbCollector_Collect example_lib example_collector 1030000000000 =
     Inr ([example_gauge, example_histogram], example_collector)
   \<and> JvbCollector_Collect example_lib example_collector 1030000000001 =
     Inr ([], example_collector)
   \<and> collect_set example_lib example_collector 1030000000000 example_set =
     Inr [example_gauge, example_histogram]"
proof -
  note a = Collect_retention [of example_lib example_collector 1030000000000 example_set]
  note b = Collect_retention [of example_lib example_collector 1030000000001 example_set]
  from a have "JvbCollector_Collect example_lib example_collector 1030000000000 =
     Inr ([example_gauge, example_histogram], example_collector)"
    by (simp add: example_collector_fields example_set_fields example_set_output)
  moreover from b have "JvbCollector_Collect example_lib example_collector 1030000000001 =
     Inr ([], example_collector)"
    by (simp add: example_collector_fields example_set_fields)
  moreover from a have "collect_set example_lib example_collector 1030000000000 example_set =
     Inr [example_gauge, example_histogram]"
    by (simp add: example_collector_fields example_set_fields example_set_output)
  ultimately show ?thesis by (intro conjI)
qed

section \<open>Faults stay with their stat\<close>

lemma example_collector_split:
  "example_collector\<lparr>statsSets := [] @
      example_set\<lparr>stats := \<lparr>Stats = before @ stat # after\<rparr>\<rparr> # []\<rparr> =
   (NewJvbCollector [] [] 30000000000)\<lparr>statsSets :=
      [\<lparr>lastUpdated = 1000000000000, stats = \<lparr>Stats = before @ stat # after\<rparr>,
        jvbIdentifier = ''jvb-1''\<rparr>]\<rparr>"
  by (simp add: example_collector_def example_set_def)

lemma example_collector_unfold:
  "example_collector =
   (NewJvbCollector [] [] 30000000000)\<lparr>statsSets :=
      [\<lparr>lastUpdated = 1000000000000,
        stats = \<lparr>Stats = [\<lparr>Name = ''participants'', Value = ''5''\<rparr>,
               \<lparr>Name = ''no_such_stat'', Value = ''7''\<rparr>,
               \<lparr>Name = ''threads'', Value = ''not-a-number''\<rparr>,
               \<lparr>Name = ''conference_sizes'', Value = ''[2,3,5,1]''\<rparr>]\<rparr>,
        jvbIdentifier = ''jvb-1''\<rparr>]\<rparr>"
  by (simp add: example_collector_def example_set_def example_stats_def)

text \<open>
  C4. \<^verbatim>\<open>Collect\<close> returns for every cache and sends the concatenation, over the fresh
  stats sets and their stats, of what each stat alone gives; the translation of one stat
  always returns. A stat whose value \<^verbatim>\<open>ParseFloat\<close> refuses, where the source parses it
  as a number (its name is none of the three histogram names), sends nothing, and so
  does any stat whose metric cannot be constructed. A stat that sends
  nothing can be taken out of its stats set without any change to what the call sends
  for the other stats and the other stats sets.
\<close>

theorem Collect_fault_isolated:
  "JvbCollector_Collect lib c now =
     Inr (concat (map (\<lambda>sset. if now - lastUpdated sset \<le> Retention c
                              then concat (map (stat_output lib c sset) (Stats (stats sset)))
                              else []) (statsSets c)), c)
   \<and> collect_stat lib c sset stat = Inr (stat_output lib c sset stat)
   \<and> (\<not> histogram_like (Name stat) \<and> ParseFloat lib (Value stat) = None
        \<longrightarrow> stat_output lib c sset stat = [])
   \<and> ((\<forall>m \<in> set (metrics c). name m = NamePrefix c @ Name stat \<longrightarrow>
           desc_err lib (desc m)
           \<or> \<not> validateLabelValues lib [jvbIdentifier sset] (length (variableLabels (desc m))))
        \<longrightarrow> stat_output lib c sset stat = [])
   \<and> (stat_output lib c sset stat = [] \<longrightarrow>
        collect_output lib
          (c\<lparr>statsSets := before_sets @
               sset\<lparr>stats := \<lparr>Stats = before @ stat # after\<rparr>\<rparr> # after_sets\<rparr>) now =
        collect_output lib
          (c\<lparr>statsSets := before_sets @
               sset\<lparr>stats := \<lparr>Stats = before @ after\<rparr>\<rparr> # after_sets\<rparr>) now)"
proof (intro conjI impI)
  show "JvbCollector_Collect lib c now =
     Inr (concat (map (\<lambda>sset. if now - lastUpdated sset \<le> Retention c
                              then concat (map (stat_output lib c sset) (Stats (stats sset)))
                              else []) (statsSets c)), c)"
    using Collect_output [of lib c now] by (simp only: set_output_def)
  show "collect_stat lib c sset stat = Inr (stat_output lib c sset stat)"
    by (rule collect_stat_output)
  show "stat_output lib c sset stat = []"
    if "\<not> histogram_like (Name stat) \<and> ParseFloat lib (Value stat) = None"
    using that by (intro stat_output_parse_failure) simp_all
  show "stat_output lib c sset stat = []"
    if "\<forall>m \<in> set (metrics c). name m = NamePrefix c @ Name stat \<longrightarrow>
           desc_err lib (desc m)
           \<or> \<not> validateLabelValues lib [jvbIdentifier sset] (length (variableLabels (desc m)))"
    using that by (intro stat_output_construction_failure) blast
  show "collect_output lib
          (c\<lparr>statsSets := before_sets @
               sset\<lparr>stats := \<lparr>Stats = before @ stat # after\<rparr>\<rparr> # after_sets\<rparr>) now =
        collect_output lib
          (c\<lparr>statsSets := before_sets @
               sset\<lparr>stats := \<lparr>Stats = before @ after\<rparr>\<rparr> # after_sets\<rparr>) now"
    if "stat_output lib c sset stat = []"
    using that by (rule collect_output_drop_stat)
qed

text \<open>
  The example run: the value of \<^verbatim>\<open>threads\<close> is not a number, and the other stats are
  sent as without it; with a library that refuses every descriptor, \<^verbatim>\<open>participants\<close>
  sends nothing.
\<close>

theorem Collect_fault_isolated_witness:
  "\<not> histogram_like ''threads'' \<and> ParseFloat example_lib ''not-a-number'' = None
   \<and> stat_output example_lib example_collector example_set
        \<lparr>Name = ''threads'', Value = ''not-a-number''\<rparr> = []
   \<and> stat_output (example_lib\<lparr>desc_err := \<lambda>d. True\<rparr>) example_collector example_set
        \<lparr>Name = ''participants'', Value = ''5''\<rparr> = []
   \<and> collect_output example_lib example_collector 1010000000000 =
       collect_output example_lib
         (example_collector\<lparr>statsSets := [] @
            example_set\<lparr>stats := \<lparr>Stats =
              [\<lparr>Name = ''participants'', Value = ''5''\<rparr>,
               \<lparr>Name = ''no_such_stat'', Value = ''7''\<rparr>]
              @ [\<lparr>Name = ''conference_sizes'', Value = ''[2,3,5,1]''\<rparr>]\<rparr>\<rparr> # []\<rparr>)
         1010000000000
   \<and> JvbCollector_Collect example_lib example_collector 1010000000000 =
       Inr ([example_gauge, example_histogram], example_collector)"
proof -
  let ?threads = "\<lparr>Name = ''threads'', Value = ''not-a-number''\<rparr>"
  let ?participants = "\<lparr>Name = ''participants'', Value = ''5''\<rparr>"
  let ?lib = "example_lib\<lparr>desc_err := \<lambda>d. True\<rparr>"
  note t = Collect_fault_isolated [where lib = example_lib and c = example_collector
      and now = 1010000000000 and sset = example_set and stat = ?threads
      and before_sets = "[]" and after_sets = "[]"
      and before = "[?participants, \<lparr>Name = ''no_such_stat'', Value = ''7''\<rparr>]"
      and after = "[\<lparr>Name = ''conference_sizes'', Value = ''[2,3,5,1]''\<rparr>]"]
  note u = Collect_fault_isolated [where lib = ?lib and c = example_collector
      and sset = example_set and stat = ?participants]
  have h1: "\<not> histogram_like (Name ?threads) \<and> ParseFloat example_lib (Value ?threads) = None"
    by (simp add: histogram_like_def example_lib_def)
  have s1: "stat_output example_lib example_collector example_set ?threads = []"
    by (rule t [THEN conjunct2, THEN conjunct2, THEN conjunct1, THEN mp, OF h1])
  have h2: "\<forall>m \<in> set (metrics example_collector).
          name m = NamePrefix example_collector @ Name ?participants \<longrightarrow>
           desc_err ?lib (desc m)
           \<or> \<not> validateLabelValues ?lib [jvbIdentifier example_set]
                 (length (variableLabels (desc m)))"
    by simp
  have s2: "stat_output ?lib example_collector example_set ?participants = []"
    by (rule u [THEN conjunct2, THEN conjunct2, THEN conjunct2, THEN conjunct1, THEN mp, OF h2])
  have s3: "collect_output example_lib
          (example_collector\<lparr>statsSets := [] @
               example_set\<lparr>stats := \<lparr>Stats =
                 [?participants, \<lparr>Name = ''no_such_stat'', Value = ''7''\<rparr>] @ ?threads #
                 [\<lparr>Name = ''conference_sizes'', Value = ''[2,3,5,1]''\<rparr>]\<rparr>\<rparr> # []\<rparr>) 1010000000000 =
        collect_output example_lib
          (example_collector\<lparr>statsSets := [] @
               example_set\<lparr>stats := \<lparr>Stats =
                 [?participants, \<lparr>Name = ''no_such_stat'', Value = ''7''\<rparr>] @
                 [\<lparr>Name = ''conference_sizes'', Value = ''[2,3,5,1]''\<rparr>]\<rparr>\<rparr> # []\<rparr>) 1010000000000"
    by (rule t [THEN conjunct2, THEN conjunct2, THEN conjunct2, THEN conjunct2, THEN mp, OF s1])
  have e: "example_collector\<lparr>statsSets := [] @
               example_set\<lparr>stats := \<lparr>Stats =
                 [?participants, \<lparr>Name = ''no_such_stat'', Value = ''7''\<rparr>] @ ?threads #
                 [\<lparr>Name = ''conference_sizes'', Value = ''[2,3,5,1]''\<rparr>]\<rparr>\<rparr> # []\<rparr> = example_collector"
    by (simp only: example_collector_split) (simp add: example_collector_unfold)
  have s4: "JvbCollector_Collect example_lib example_collector 1010000000000 =
       Inr ([example_gauge, example_histogram], example_collector)"
    by (simp add: example_Collect)
  from h1 s1 s2 s3 [unfolded e] s4 show ?thesis
    by simp
qed

section \<open>Stats that no metric matches\<close>

text \<open>
  C8. A stat whose name, after the prefix, is the name of no metric of the collector
  sends no metric, and what \<^verbatim>\<open>Collect\<close> sends is the same with and without it.
\<close>

theorem Collect_unmatched_stat:
  assumes "\<forall>m \<in> set (metrics c). name m \<noteq> NamePrefix c @ Name stat"
  shows "collect_stat lib c sset stat = Inr []
   \<and> collect_output lib
        (c\<lparr>statsSets := before_sets @
             sset\<lparr>stats := \<lparr>Stats = before @ stat # after\<rparr>\<rparr> # after_sets\<rparr>) now =
      collect_output lib
        (c\<lparr>statsSets := before_sets @
             sset\<lparr>stats := \<lparr>Stats = before @ after\<rparr>\<rparr> # after_sets\<rparr>) now"
proof -
  have e: "stat_output lib c sset stat = []"
    using assms by (intro stat_output_unmatched) blast
  then have "collect_stat lib c sset stat = Inr []"
    by (simp add: collect_stat_output)
  with collect_output_drop_stat [OF e] show ?thesis by blast
qed

text \<open>The stat \<^verbatim>\<open>no_such_stat\<close> of the example run.\<close>

theorem Collect_unmatched_stat_witness:
  "collect_stat example_lib example_collector example_set
     \<lparr>Name = ''no_such_stat'', Value = ''7''\<rparr> = Inr []
   \<and> collect_output example_lib example_collector 1010000000000 =
      collect_output example_lib
        (example_collector\<lparr>statsSets := [] @
           example_set\<lparr>stats := \<lparr>Stats =
             [\<lparr>Name = ''participants'', Value = ''5''\<rparr>]
             @ [\<lparr>Name = ''threads'', Value = ''not-a-number''\<rparr>,
                \<lparr>Name = ''conference_sizes'', Value = ''[2,3,5,1]''\<rparr>]\<rparr>\<rparr> # []\<rparr>)
        1010000000000"
proof -
  let ?stat = "\<lparr>Name = ''no_such_stat'', Value = ''7''\<rparr>"
  have h: "\<forall>m \<in> set (metrics example_collector).
             name m \<noteq> NamePrefix example_collector @ Name ?stat"
  proof
    fix m assume "m \<in> set (metrics example_collector)"
    then have "m \<in> set (metrics (NewJvbCollector [] [] 30000000000))"
      by (simp add: example_collector_fields)
    from NewJvbCollector_metric_names [OF this] catalog_no_such_stat
    show "name m \<noteq> NamePrefix example_collector @ Name ?stat"
      by (force simp add: NewJvbCollector_fields example_collector_fields)
  qed
  note t = Collect_unmatched_stat [OF h, where lib = example_lib and sset = example_set
      and now = 1010000000000 and before_sets = "[]" and after_sets = "[]"
      and before = "[\<lparr>Name = ''participants'', Value = ''5''\<rparr>]"
      and after = "[\<lparr>Name = ''threads'', Value = ''not-a-number''\<rparr>,
                \<lparr>Name = ''conference_sizes'', Value = ''[2,3,5,1]''\<rparr>]"]
  have e: "example_collector\<lparr>statsSets := [] @
               example_set\<lparr>stats := \<lparr>Stats =
                 [\<lparr>Name = ''participants'', Value = ''5''\<rparr>] @ ?stat #
                 [\<lparr>Name = ''threads'', Value = ''not-a-number''\<rparr>,
                  \<lparr>Name = ''conference_sizes'', Value = ''[2,3,5,1]''\<rparr>]\<rparr>\<rparr> # []\<rparr> = example_collector"
    by (simp only: example_collector_split) (simp add: example_collector_unfold)
  from t [unfolded e] show ?thesis .
qed

section \<open>The label of the metrics sent\<close>

lemma variable_labels_emitted:
  assumes "x \<in> set (emitted lib c sset stat m)"
    and "variableLabels (desc m) = [''jvb_instance'']"
  shows "variable_labels x = [(''jvb_instance'', jvbIdentifier sset)]"
  using emitted_member [OF assms(1)] assms(2) by (simp add: variable_labels_def)

lemma set_output_labels:
  assumes "metrics c = metrics (NewJvbCollector namespace subsystem retention)"
    and "m \<in> set (set_output lib c sset)"
  shows "variable_labels m = [(''jvb_instance'', jvbIdentifier sset)]"
proof -
  from assms(2) obtain stat mm where mm: "mm \<in> set (metrics c)"
    and x: "m \<in> set (emitted lib c sset stat mm)"
    by (auto simp add: set_output_def stat_output_def)
  from mm assms(1) have "variableLabels (desc mm) = [''jvb_instance'']"
    by (simp add: NewJvbCollector_variableLabels)
  with x show ?thesis by (rule variable_labels_emitted)
qed

lemma example_collector2_fields:
  "NamePrefix example_collector2 = []"
  "Retention example_collector2 = 30000000000"
  "statsSets example_collector2 = [example_set, example_set2]"
  "metrics example_collector2 = metrics (NewJvbCollector [] [] 30000000000)"
  by (simp_all add: example_collector2_def example_collector_fields)

lemma example_set2_fields:
  "lastUpdated example_set2 = 1005000000000"
  "stats example_set2 = \<lparr>Stats = [\<lparr>Name = ''participants'', Value = ''7''\<rparr>]\<rparr>"
  "jvbIdentifier example_set2 = ''jvb-2''"
  by (simp_all add: example_set2_def)

lemma example_set_output2:
  "set_output example_lib example_collector2 example_set = [example_gauge, example_histogram]"
proof -
  have "set_output example_lib example_collector2 example_set =
        set_output example_lib example_collector example_set"
    by (rule set_output_frame) (simp_all add: example_collector2_fields example_collector_fields)
  then show ?thesis by (simp only: example_set_output)
qed

lemma example_set2_output:
  "set_output example_lib example_collector2 example_set2 = [example_gauge2]"
proof -
  let ?stat = "\<lparr>Name = ''participants'', Value = ''7''\<rparr>"
  have "stat_output example_lib example_collector2 example_set2 ?stat =
        emitted example_lib example_collector2 example_set2 ?stat
          (newMetric (NamePrefix example_collector2 @ ''participants'') GaugeValue
             ''The current number of participants.'' [''jvb_instance''] [(''app'', ''jitsi'')])"
    using stat_output_catalog [where c = example_collector2 and namespace = "[]"
        and subsystem = "[]" and retention = 30000000000 and lib = example_lib
        and sset = example_set2 and stat = ?stat and t = GaugeValue
        and h = "''The current number of participants.''"]
    by (simp add: example_collector2_fields NewJvbCollector_fields catalog_participants)
  also have "\<dots> = [example_gauge2]"
    by (subst emitted_scalar)
       (simp_all add: example_collector2_fields newMetric_def histogram_like_def
          prometheus_NewConstMetric_def validateLabelValues_def prometheus_NewDesc_def
          example_lib_def example_set2_fields example_gauge2_def)
  finally show ?thesis
    by (simp add: set_output_def example_set2_fields)
qed

text \<open>
  C5, as the code has it. With the metrics that \<^verbatim>\<open>NewJvbCollector\<close> makes, what
  \<^verbatim>\<open>Collect\<close> sends is, in the order of the cache, one block of metrics for each stats
  set: the metrics that the loop body sends for that stats set. Every metric of the
  block has exactly one variable label; its name is \<^verbatim>\<open>jvb_instance\<close> and its value is
  the identifier of that stats set.
\<close>

theorem Collect_instance_label:
  assumes "metrics c = metrics (NewJvbCollector namespace subsystem retention)"
  shows "\<exists>blocks.
           JvbCollector_Collect lib c now = Inr (concat blocks, c)
           \<and> list_all2
               (\<lambda>sset block.
                  collect_set lib c now sset = Inr block
                  \<and> (\<forall>m \<in> set block.
                        variable_labels m = [(''jvb_instance'', jvbIdentifier sset)]))
               (statsSets c) blocks"
proof -
  let ?f = "\<lambda>sset. if now - lastUpdated sset \<le> Retention c then set_output lib c sset else []"
  have lab: "\<forall>m \<in> set (?f sset). variable_labels m = [(''jvb_instance'', jvbIdentifier sset)]"
    for sset
    by (auto dest: set_output_labels [OF assms])
  have "list_all2
          (\<lambda>sset block.
             collect_set lib c now sset = Inr block
             \<and> (\<forall>m \<in> set block. variable_labels m = [(''jvb_instance'', jvbIdentifier sset)]))
          ss (map ?f ss)" for ss
  proof (induction ss)
    case Nil
    show ?case by simp
  next
    case (Cons a ss)
    show ?case
      unfolding list.map list_all2_Cons
    proof (intro conjI)
      show "collect_set lib c now a = Inr (?f a)"
        by (rule collect_set_output)
      show "\<forall>m \<in> set (?f a). variable_labels m = [(''jvb_instance'', jvbIdentifier a)]"
        by (rule lab)
      show "list_all2
          (\<lambda>sset block.
             collect_set lib c now sset = Inr block
             \<and> (\<forall>m \<in> set block. variable_labels m = [(''jvb_instance'', jvbIdentifier sset)]))
          ss (map ?f ss)"
        by (rule Cons.IH)
    qed
  qed
  moreover have "JvbCollector_Collect lib c now = Inr (concat (map ?f (statsSets c)), c)"
    by (rule Collect_output)
  ultimately show ?thesis by blast
qed

text \<open>
  A cache with two instances: the metrics of the first carry \<^verbatim>\<open>jvb-1\<close>, the metric of
  the second carries \<^verbatim>\<open>jvb-2\<close>.
\<close>

theorem Collect_instance_label_witness:
  "metrics example_collector2 = metrics (NewJvbCollector [] [] 30000000000)
   \<and> JvbCollector_Collect example_lib example_collector2 1010000000000 =
       Inr ([example_gauge, example_histogram, example_gauge2], example_collector2)
   \<and> collect_set example_lib example_collector2 1010000000000 example_set =
       Inr [example_gauge, example_histogram]
   \<and> collect_set example_lib example_collector2 1010000000000 example_set2 =
       Inr [example_gauge2]
   \<and> variable_labels example_gauge = [(''jvb_instance'', ''jvb-1'')]
   \<and> variable_labels example_histogram = [(''jvb_instance'', ''jvb-1'')]
   \<and> variable_labels example_gauge2 = [(''jvb_instance'', ''jvb-2'')]"
proof -
  let ?P = "\<lambda>sset block.
              collect_set example_lib example_collector2 1010000000000 sset = Inr block
              \<and> (\<forall>m \<in> set block.
                    variable_labels m = [(''jvb_instance'', jvbIdentifier sset)])"
  have m: "metrics example_collector2 = metrics (NewJvbCollector [] [] 30000000000)"
    by (rule example_collector2_fields)
  have s1: "collect_set example_lib example_collector2 1010000000000 example_set =
      Inr [example_gauge, example_histogram]"
    by (simp add: collect_set_output example_collector2_fields example_set_fields
          example_set_output2)
  have s2: "collect_set example_lib example_collector2 1010000000000 example_set2 =
      Inr [example_gauge2]"
    by (simp add: collect_set_output example_collector2_fields example_set2_fields
          example_set2_output)
  from Collect_instance_label [OF m, of example_lib 1010000000000] obtain blocks where
    c: "JvbCollector_Collect example_lib example_collector2 1010000000000 =
          Inr (concat blocks, example_collector2)"
    and l: "list_all2 ?P (statsSets example_collector2) blocks"
    by blast
  from l have "list_all2 ?P [example_set, example_set2] blocks"
    by (simp only: example_collector2_fields)
  then obtain b1 b2 where bl: "blocks = [b1, b2]" and p1: "?P example_set b1"
    and p2: "?P example_set2 b2"
    by (auto simp add: list_all2_Cons1)
  from p1 s1 have b1: "b1 = [example_gauge, example_histogram]" by simp
  from p2 s2 have b2: "b2 = [example_gauge2]" by simp
  from c have r: "JvbCollector_Collect example_lib example_collector2 1010000000000 =
       Inr ([example_gauge, example_histogram, example_gauge2], example_collector2)"
    by (simp add: bl b1 b2)
  from p1 have g1: "variable_labels example_gauge = [(''jvb_instance'', ''jvb-1'')]"
    and h1: "variable_labels example_histogram = [(''jvb_instance'', ''jvb-1'')]"
    by (simp_all add: b1 example_set_fields)
  from p2 have g2: "variable_labels example_gauge2 = [(''jvb_instance'', ''jvb-2'')]"
    by (simp add: b2 example_set2_fields)
  from m r s1 s2 g1 h1 g2 show ?thesis by (intro conjI)
qed

text \<open>
  The label is not named \<^verbatim>\<open>instance\<close>: after
  \<^verbatim>\<open>Update("jvb-1", ...)\<close> on a new collector, the two metrics that \<^verbatim>\<open>Collect\<close> sends
  carry the label \<^verbatim>\<open>jvb_instance\<close>.
\<close>

theorem Collect_label_is_jvb_instance:
  "JvbCollector_Update (NewJvbCollector [] [] 30000000000) ''jvb-1'' (Some example_stats)
     1000000000000 = Inr example_collector
   \<and> JvbCollector_Collect example_lib example_collector 1010000000000 =
       Inr ([example_gauge, example_histogram], example_collector)
   \<and> variable_labels example_gauge = [(''jvb_instance'', ''jvb-1'')]
   \<and> variable_labels example_histogram = [(''jvb_instance'', ''jvb-1'')]
   \<and> variable_labels example_gauge \<noteq> [(''instance'', ''jvb-1'')]"
  by (simp add: example_Update example_Collect variable_labels_def example_gauge_def
        example_histogram_def prometheus_NewDesc_def)

section \<open>Update keeps one stats set for each identifier\<close>

lemma statsSet_update_eq:
  "s\<lparr>lastUpdated := t, stats := st\<rparr> =
     \<lparr>lastUpdated = t, stats = st, jvbIdentifier = jvbIdentifier s\<rparr>"
  by (cases s) simp

lemma update_loop_map:
  "distinct (map jvbIdentifier ss) \<Longrightarrow> identifier \<in> jvbIdentifier ` set ss \<Longrightarrow>
   update_loop ss identifier (Some st) now =
     Inr (Some (map (\<lambda>s. if jvbIdentifier s = identifier
                          then \<lparr>lastUpdated = now, stats = st, jvbIdentifier = identifier\<rparr>
                          else s) ss))"
proof (induction ss)
  case Nil
  then show ?case by simp
next
  case (Cons s ss)
  show ?case
  proof (cases "jvbIdentifier s = identifier")
    case True
    have "jvbIdentifier x \<noteq> identifier" if "x \<in> set ss" for x
    proof
      assume "jvbIdentifier x = identifier"
      with that have "identifier \<in> jvbIdentifier ` set ss"
        by (auto intro: rev_image_eqI)
      with Cons.prems True show False by simp
    qed
    then have "map (\<lambda>s. if jvbIdentifier s = identifier
                          then \<lparr>lastUpdated = now, stats = st, jvbIdentifier = identifier\<rparr>
                          else s) ss = ss"
      by (induction ss) simp_all
    with True show ?thesis by (simp add: statsSet_update_eq)
  next
    case False
    with Cons.prems have "identifier \<in> jvbIdentifier ` set ss" and "distinct (map jvbIdentifier ss)"
      by auto
    with Cons.IH False show ?thesis by simp
  qed
qed

lemma Update_existing:
  assumes "distinct (map jvbIdentifier (statsSets c))"
    and "identifier \<in> jvbIdentifier ` set (statsSets c)"
  shows "JvbCollector_Update c identifier (Some st) now =
     Inr (c\<lparr>statsSets := map (\<lambda>s. if jvbIdentifier s = identifier
                          then \<lparr>lastUpdated = now, stats = st, jvbIdentifier = identifier\<rparr>
                          else s) (statsSets c)\<rparr>)"
  by (simp add: JvbCollector_Update_def update_loop_map [OF assms])


lemma find_snoc:
  "find P (xs @ [y]) = (case find P xs of None \<Rightarrow> (if P y then Some y else None) | Some x \<Rightarrow> Some x)"
  by (induction xs) simp_all

lemma Updates_last_wins_aux:
  "distinct (map jvbIdentifier (statsSets c)) \<Longrightarrow>
   \<exists>c'. Updates c (map (\<lambda>(identifier, st, now). (identifier, Some st, now)) calls) = Inr c'
     \<and> distinct (map jvbIdentifier (statsSets c'))
     \<and> NamePrefix c' = NamePrefix c \<and> Retention c' = Retention c \<and> metrics c' = metrics c
     \<and> (\<forall>identifier. filter (\<lambda>s. jvbIdentifier s = identifier) (statsSets c') =
          (case find (\<lambda>(i, st, now). i = identifier) (rev calls) of
             None \<Rightarrow> filter (\<lambda>s. jvbIdentifier s = identifier) (statsSets c)
           | Some (i, st, now) \<Rightarrow>
               [\<lparr>lastUpdated = now, stats = st, jvbIdentifier = identifier\<rparr>]))"
proof (induction calls arbitrary: c)
  case Nil
  then show ?case by simp
next
  case (Cons call calls)
  obtain i0 st0 t0 where call: "call = (i0, st0, t0)"
    by (cases call)
  from Update_step [OF Cons.prems, of i0 st0 t0] obtain c1 where
    u: "JvbCollector_Update c i0 (Some st0) t0 = Inr c1"
    and d1: "distinct (map jvbIdentifier (statsSets c1))"
    and fr: "NamePrefix c1 = NamePrefix c" "Retention c1 = Retention c" "metrics c1 = metrics c"
    and f1: "\<And>j. filter (\<lambda>s. jvbIdentifier s = j) (statsSets c1) =
             (if j = i0
              then [\<lparr>lastUpdated = t0, stats = st0, jvbIdentifier = i0\<rparr>]
              else filter (\<lambda>s. jvbIdentifier s = j) (statsSets c))"
    by blast
  from Cons.IH [OF d1] obtain c' where
    r: "Updates c1 (map (\<lambda>(identifier, st, now). (identifier, Some st, now)) calls) = Inr c'"
    and d': "distinct (map jvbIdentifier (statsSets c'))"
    and fr': "NamePrefix c' = NamePrefix c1" "Retention c' = Retention c1" "metrics c' = metrics c1"
    and f': "\<And>identifier. filter (\<lambda>s. jvbIdentifier s = identifier) (statsSets c') =
          (case find (\<lambda>(i, st, now). i = identifier) (rev calls) of
             None \<Rightarrow> filter (\<lambda>s. jvbIdentifier s = identifier) (statsSets c1)
           | Some (i, st, now) \<Rightarrow>
               [\<lparr>lastUpdated = now, stats = st, jvbIdentifier = identifier\<rparr>])"
    by blast
  have run: "Updates c (map (\<lambda>(identifier, st, now). (identifier, Some st, now)) (call # calls)) = Inr c'"
    using u r by (simp add: call)
  have F: "filter (\<lambda>s. jvbIdentifier s = j) (statsSets c') =
          (case find (\<lambda>(i, st, now). i = j) (rev (call # calls)) of
             None \<Rightarrow> filter (\<lambda>s. jvbIdentifier s = j) (statsSets c)
           | Some (i, st, now) \<Rightarrow>
               [\<lparr>lastUpdated = now, stats = st, jvbIdentifier = j\<rparr>])" for j
    by (simp add: f' f1 find_snoc call split: option.split)
  show ?case
  proof (intro exI conjI allI)
    show "Updates c (map (\<lambda>(identifier, st, now). (identifier, Some st, now)) (call # calls)) = Inr c'"
      by (rule run)
    show "distinct (map jvbIdentifier (statsSets c'))"
      by (rule d')
    show "NamePrefix c' = NamePrefix c" "Retention c' = Retention c" "metrics c' = metrics c"
      using fr fr' by simp_all
  next
    fix j
    show "filter (\<lambda>s. jvbIdentifier s = j) (statsSets c') =
          (case find (\<lambda>(i, st, now). i = j) (rev (call # calls)) of
             None \<Rightarrow> filter (\<lambda>s. jvbIdentifier s = j) (statsSets c)
           | Some (i, st, now) \<Rightarrow>
               [\<lparr>lastUpdated = now, stats = st, jvbIdentifier = j\<rparr>])"
      by (rule F)
  qed
qed

text \<open>
  C3. From a cache with at most one stats set for each identifier, as a new collector's
  empty cache is, every sequence of calls of \<^verbatim>\<open>Update\<close> with a pointer that is not nil
  returns, and leaves at most one stats set for each identifier. The stats sets with a
  given identifier are then: the one with the stats and the time of the last call for
  that identifier, when there was a call for it; what the cache had before, otherwise.
\<close>

theorem Updates_last_wins:
  assumes "distinct (map jvbIdentifier (statsSets c))"
  shows "\<exists>c'. Updates c (map (\<lambda>(identifier, st, now). (identifier, Some st, now)) calls) = Inr c'
     \<and> distinct (map jvbIdentifier (statsSets c'))
     \<and> (\<forall>identifier. filter (\<lambda>s. jvbIdentifier s = identifier) (statsSets c') =
          (case find (\<lambda>(i, st, now). i = identifier) (rev calls) of
             None \<Rightarrow> filter (\<lambda>s. jvbIdentifier s = identifier) (statsSets c)
           | Some (i, st, now) \<Rightarrow>
               [\<lparr>lastUpdated = now, stats = st, jvbIdentifier = identifier\<rparr>]))"
  using Updates_last_wins_aux [OF assms, of calls] by blast

text \<open>Three calls on a new collector, the first and the last for the same identifier.\<close>

theorem Updates_last_wins_witness:
  "distinct (map jvbIdentifier (statsSets (NewJvbCollector [] [] 30000000000)))
   \<and> Updates (NewJvbCollector [] [] 30000000000)
        [(''jvb-1'', Some \<lparr>Stats = [\<lparr>Name = ''participants'', Value = ''7''\<rparr>]\<rparr>, 100),
         (''jvb-2'', Some \<lparr>Stats = []\<rparr>, 200),
         (''jvb-1'', Some example_stats, 300)] =
       Inr ((NewJvbCollector [] [] 30000000000)\<lparr>statsSets :=
              [\<lparr>lastUpdated = 300, stats = example_stats, jvbIdentifier = ''jvb-1''\<rparr>,
               \<lparr>lastUpdated = 200, stats = \<lparr>Stats = []\<rparr>, jvbIdentifier = ''jvb-2''\<rparr>]\<rparr>)
   \<and> filter (\<lambda>s. jvbIdentifier s = ''jvb-1'')
        [\<lparr>lastUpdated = 300, stats = example_stats, jvbIdentifier = ''jvb-1''\<rparr>,
         \<lparr>lastUpdated = 200, stats = \<lparr>Stats = []\<rparr>, jvbIdentifier = ''jvb-2''\<rparr>] =
       [\<lparr>lastUpdated = 300, stats = example_stats, jvbIdentifier = ''jvb-1''\<rparr>]"
proof -
  let ?c = "NewJvbCollector [] [] 30000000000"
  let ?calls = "[(''jvb-1'', \<lparr>Stats = [\<lparr>Name = ''participants'', Value = ''7''\<rparr>]\<rparr>, 100 :: int),
         (''jvb-2'', \<lparr>Stats = []\<rparr>, 200),
         (''jvb-1'', example_stats, 300)]"
  let ?final = "[\<lparr>lastUpdated = 300, stats = example_stats, jvbIdentifier = ''jvb-1''\<rparr>,
               \<lparr>lastUpdated = 200, stats = \<lparr>Stats = []\<rparr>, jvbIdentifier = ''jvb-2''\<rparr>]"
  have d: "distinct (map jvbIdentifier (statsSets ?c))"
    by (simp add: NewJvbCollector_fields)
  have run: "Updates ?c (map (\<lambda>(identifier, st, now). (identifier, Some st, now)) ?calls) =
      Inr (?c\<lparr>statsSets := ?final\<rparr>)"
    by (simp add: JvbCollector_Update_def NewJvbCollector_fields)
  from Updates_last_wins [OF d, of ?calls] obtain c' where
    r: "Updates ?c (map (\<lambda>(identifier, st, now). (identifier, Some st, now)) ?calls) = Inr c'"
    and f: "\<forall>identifier. filter (\<lambda>s. jvbIdentifier s = identifier) (statsSets c') =
          (case find (\<lambda>(i, st, now). i = identifier) (rev ?calls) of
             None \<Rightarrow> filter (\<lambda>s. jvbIdentifier s = identifier) (statsSets ?c)
           | Some (i, st, now) \<Rightarrow>
               [\<lparr>lastUpdated = now, stats = st, jvbIdentifier = identifier\<rparr>])"
    by blast
  from r run have c': "c' = ?c\<lparr>statsSets := ?final\<rparr>"
    by simp
  from f [rule_format, of "''jvb-1''"] have
    "filter (\<lambda>s. jvbIdentifier s = ''jvb-1'') ?final =
       [\<lparr>lastUpdated = 300, stats = example_stats, jvbIdentifier = ''jvb-1''\<rparr>]"
    unfolding c' by simp
  with d run show ?thesis by simp
qed

section \<open>Collect only reads the cache\<close>

lemma set_output_refreshed:
  "set_output lib c \<lparr>lastUpdated = t, stats = st, jvbIdentifier = jvbIdentifier sset\<rparr> =
   set_output lib c (sset\<lparr>stats := st\<rparr>)"
  by (rule set_output_frame) simp_all

text \<open>
  C9. \<^verbatim>\<open>Collect\<close> returns the collector as it was. A stale stats set sends nothing and
  stays in the cache: after a later \<^verbatim>\<open>Update\<close> for its identifier (the cache has the
  same stats sets, that one with the new stats and time), a \<^verbatim>\<open>Collect\<close> within the
  retention of that update sends its metrics again, made from the stats of the update,
  and the metrics of the other stats sets as their own age decides.
\<close>

theorem Collect_pure_read:
  "(\<exists>out. JvbCollector_Collect lib c now = Inr (out, c))
   \<and> (\<not> now - lastUpdated sset \<le> Retention c \<longrightarrow> collect_set lib c now sset = Inr [])
   \<and> (distinct (map jvbIdentifier (statsSets c)) \<and> sset \<in> set (statsSets c)
        \<and> later - t \<le> Retention c \<longrightarrow>
        (\<exists>out c1 c2.
           JvbCollector_Collect lib c now = Inr (out, c1) \<and> c1 = c
           \<and> JvbCollector_Update c1 (jvbIdentifier sset) (Some st) t = Inr c2
           \<and> statsSets c2 =
               map (\<lambda>s. if jvbIdentifier s = jvbIdentifier sset
                        then \<lparr>lastUpdated = t, stats = st, jvbIdentifier = jvbIdentifier sset\<rparr>
                        else s) (statsSets c)
           \<and> collect_output lib c2 later =
               concat (map (\<lambda>s. if jvbIdentifier s = jvbIdentifier sset
                                 then set_output lib c (sset\<lparr>stats := st\<rparr>)
                                 else if later - lastUpdated s \<le> Retention c
                                   then set_output lib c s else []) (statsSets c))))"
proof (intro conjI impI)
  show "\<exists>out. JvbCollector_Collect lib c now = Inr (out, c)"
    by (simp add: Collect_output)
  show "collect_set lib c now sset = Inr []" if "\<not> now - lastUpdated sset \<le> Retention c"
    using that by (simp add: collect_set_output)
next
  assume a: "distinct (map jvbIdentifier (statsSets c)) \<and> sset \<in> set (statsSets c)
        \<and> later - t \<le> Retention c"
  let ?new = "\<lparr>lastUpdated = t, stats = st, jvbIdentifier = jvbIdentifier sset\<rparr>"
  let ?f = "\<lambda>s. if jvbIdentifier s = jvbIdentifier sset then ?new else s"
  let ?c2 = "c\<lparr>statsSets := map ?f (statsSets c)\<rparr>"
  from a have u: "JvbCollector_Update c (jvbIdentifier sset) (Some st) t = Inr ?c2"
    by (intro Update_existing) simp_all
  let ?g = "\<lambda>s. if later - lastUpdated s \<le> Retention c then set_output lib c s else []"
  let ?h = "\<lambda>s. if jvbIdentifier s = jvbIdentifier sset
                 then set_output lib c (sset\<lparr>stats := st\<rparr>)
                 else if later - lastUpdated s \<le> Retention c
                   then set_output lib c s else []"
  have pt: "?g (?f s) = ?h s" for s
  proof (cases "jvbIdentifier s = jvbIdentifier sset")
    case True
    with a show ?thesis by (simp add: set_output_refreshed)
  next
    case False
    then show ?thesis by simp
  qed
  have mm: "map ?g (map ?f (statsSets c)) = map ?h (statsSets c)"
    unfolding map_map by (rule map_cong [OF refl]) (simp only: comp_def pt)
  have "collect_output lib ?c2 later = concat (map ?g (map ?f (statsSets c)))"
    by (rule collect_output_statsSets)
  also have "\<dots> = concat (map ?h (statsSets c))"
    by (simp only: mm)
  finally have o: "collect_output lib ?c2 later =
      concat (map (\<lambda>s. if jvbIdentifier s = jvbIdentifier sset
                                 then set_output lib c (sset\<lparr>stats := st\<rparr>)
                                 else if later - lastUpdated s \<le> Retention c
                                   then set_output lib c s else []) (statsSets c))" .
  show "\<exists>out c1 c2.
           JvbCollector_Collect lib c now = Inr (out, c1) \<and> c1 = c
           \<and> JvbCollector_Update c1 (jvbIdentifier sset) (Some st) t = Inr c2
           \<and> statsSets c2 = map ?f (statsSets c)
           \<and> collect_output lib c2 later =
               concat (map (\<lambda>s. if jvbIdentifier s = jvbIdentifier sset
                                 then set_output lib c (sset\<lparr>stats := st\<rparr>)
                                 else if later - lastUpdated s \<le> Retention c
                                   then set_output lib c s else []) (statsSets c))"
  proof (intro exI conjI)
    show "JvbCollector_Collect lib c now =
            Inr (concat (map (\<lambda>sset. if now - lastUpdated sset \<le> Retention c
                              then set_output lib c sset else []) (statsSets c)), c)"
      by (rule Collect_output)
    show "c = c" by (rule refl)
    show "JvbCollector_Update c (jvbIdentifier sset) (Some st) t = Inr ?c2"
      by (rule u)
    show "statsSets ?c2 = map ?f (statsSets c)"
      by simp
    show "collect_output lib ?c2 later =
      concat (map (\<lambda>s. if jvbIdentifier s = jvbIdentifier sset
                                 then set_output lib c (sset\<lparr>stats := st\<rparr>)
                                 else if later - lastUpdated s \<le> Retention c
                                   then set_output lib c s else []) (statsSets c))"
      by (rule o)
  qed
qed

text \<open>
  The example run collected 31 s after its update: nothing is sent and the stats set is
  kept; updated again at 1040 s and collected at 1050 s, the same metrics are sent.
\<close>

theorem Collect_pure_read_witness:
  "JvbCollector_Collect example_lib example_collector 1031000000000 = Inr ([], example_collector)
   \<and> \<not> 1031000000000 - lastUpdated example_set \<le> Retention example_collector
   \<and> collect_set example_lib example_collector 1031000000000 example_set = Inr []
   \<and> distinct (map jvbIdentifier (statsSets example_collector))
   \<and> example_set \<in> set (statsSets example_collector)
   \<and> (\<exists>c2. JvbCollector_Update example_collector ''jvb-1'' (Some example_stats) 1040000000000
               = Inr c2
        \<and> statsSets c2 =
            [\<lparr>lastUpdated = 1040000000000, stats = example_stats, jvbIdentifier = ''jvb-1''\<rparr>]
        \<and> collect_output example_lib c2 1050000000000 = [example_gauge, example_histogram])"
proof -
  note t = Collect_pure_read [where lib = example_lib and c = example_collector
      and now = 1031000000000 and sset = example_set and later = 1050000000000
      and t = 1040000000000 and st = example_stats]
  have c1: "JvbCollector_Collect example_lib example_collector 1031000000000 =
      Inr ([], example_collector)"
    by (simp add: example_Collect)
  have stale: "\<not> 1031000000000 - lastUpdated example_set \<le> Retention example_collector"
    by (simp add: example_set_fields example_collector_fields)
  have s: "collect_set example_lib example_collector 1031000000000 example_set = Inr []"
    by (rule t [THEN conjunct2, THEN conjunct1, THEN mp, OF stale])
  have d: "distinct (map jvbIdentifier (statsSets example_collector))"
    and m: "example_set \<in> set (statsSets example_collector)"
    by (simp_all add: example_collector_fields)
  have h: "distinct (map jvbIdentifier (statsSets example_collector))
        \<and> example_set \<in> set (statsSets example_collector)
        \<and> 1050000000000 - 1040000000000 \<le> Retention example_collector"
    using d m by (simp add: example_collector_fields)
  have same: "example_set\<lparr>stats := example_stats\<rparr> = example_set"
    by (simp add: example_set_def)
  from t [THEN conjunct2, THEN conjunct2, THEN mp, OF h] obtain out c1 c2 where
    u: "JvbCollector_Update c1 (jvbIdentifier example_set) (Some example_stats) 1040000000000
          = Inr c2"
    and e: "c1 = example_collector"
    and ss: "statsSets c2 =
               map (\<lambda>s. if jvbIdentifier s = jvbIdentifier example_set
                        then \<lparr>lastUpdated = 1040000000000, stats = example_stats,
                               jvbIdentifier = jvbIdentifier example_set\<rparr>
                        else s) (statsSets example_collector)"
    and o: "collect_output example_lib c2 1050000000000 =
               concat (map (\<lambda>s. if jvbIdentifier s = jvbIdentifier example_set
                                 then set_output example_lib example_collector
                                        (example_set\<lparr>stats := example_stats\<rparr>)
                                 else if 1050000000000 - lastUpdated s \<le> Retention example_collector
                                   then set_output example_lib example_collector s else [])
                         (statsSets example_collector))"
    by blast
  from u e have u': "JvbCollector_Update example_collector ''jvb-1'' (Some example_stats)
      1040000000000 = Inr c2"
    by (simp add: example_set_fields)
  from ss have ss': "statsSets c2 =
      [\<lparr>lastUpdated = 1040000000000, stats = example_stats, jvbIdentifier = ''jvb-1''\<rparr>]"
    by (simp add: example_collector_fields example_set_fields)
  from o have o': "collect_output example_lib c2 1050000000000 = [example_gauge, example_histogram]"
    by (simp add: example_collector_fields same example_set_output)
  from u' ss' o' have "\<exists>c2. JvbCollector_Update example_collector ''jvb-1'' (Some example_stats)
               1040000000000 = Inr c2
        \<and> statsSets c2 =
            [\<lparr>lastUpdated = 1040000000000, stats = example_stats, jvbIdentifier = ''jvb-1''\<rparr>]
        \<and> collect_output example_lib c2 1050000000000 = [example_gauge, example_histogram]"
    by (intro exI conjI)
  with c1 stale s d m show ?thesis by (intro conjI)
qed

end
